theory Spec2Isabelle
  imports Main "HOL-Library.Sublist" "HOL-Library.Word"
begin

section \<open>JavaScript strings\<close>

text \<open>
  A JavaScript string is a sequence of 16-bit code units; \<open>length\<close>, \<open>substring\<close> and the
  selection offsets of a textarea all count code units. String literals of the source are
  ASCII and written with \<open>utf16\<close>.
\<close>

type_synonym code_unit = "16 word"
type_synonym jsstring = "code_unit list"

definition utf16 :: "string \<Rightarrow> jsstring" where
  "utf16 s = map of_char s"

text \<open>
  \<open>s.substring(a, b)\<close>: both arguments are clamped to the length and swapped when
  \<open>a > b\<close>. Offsets are non-negative here (they come from \<open>selectionStart\<close>,
  \<open>selectionEnd\<close> or the literal 0). \<open>s.substring(a)\<close> runs to the end.
\<close>

definition substring :: "jsstring \<Rightarrow> nat \<Rightarrow> nat \<Rightarrow> jsstring" where
  "substring s a b =
     (let a' = min a (length s); b' = min b (length s);
          from = min a' b'; to = max a' b'
      in take (to - from) (drop from s))"

definition substring_from :: "jsstring \<Rightarrow> nat \<Rightarrow> jsstring" where
  "substring_from s a = drop (min a (length s)) s"

text \<open>\<open>WhiteSpace\<close> and \<open>LineTerminator\<close> of ECMAScript, the code units \<open>trim\<close> strips.\<close>

definition isWhiteSpace :: "code_unit \<Rightarrow> bool" where
  "isWhiteSpace c \<longleftrightarrow>
     c \<in> {0x0009, 0x000A, 0x000B, 0x000C, 0x000D, 0x0020, 0x00A0, 0x1680,
          0x2028, 0x2029, 0x202F, 0x205F, 0x3000, 0xFEFF}
     \<or> (0x2000 \<le> c \<and> c \<le> 0x200A)"

definition trim :: "jsstring \<Rightarrow> jsstring" where
  "trim s = rev (dropWhile isWhiteSpace (rev (dropWhile isWhiteSpace s)))"

definition endsWith :: "jsstring \<Rightarrow> jsstring \<Rightarrow> bool" where
  "endsWith s t = suffix t s"

text \<open>\<open>StringIndexOf(s, search, 0)\<close>: the first offset at which \<open>search\<close> occurs.\<close>

fun StringIndexOf :: "jsstring \<Rightarrow> jsstring \<Rightarrow> nat option" where
  "StringIndexOf [] search = (if search = [] then Some 0 else None)"
| "StringIndexOf (c # cs) search =
     (if prefix search (c # cs) then Some 0 else map_option Suc (StringIndexOf cs search))"

definition includes_str :: "jsstring \<Rightarrow> jsstring \<Rightarrow> bool" where
  "includes_str s search = (StringIndexOf s search \<noteq> None)"

text \<open>
  \<open>GetSubstitution\<close> of ECMAScript for a string pattern (no captures): in the replacement
  text \<open>$$\<close> stands for one dollar sign, \<open>$&\<close> for the matched text, \<open>$`\<close> for the text
  before the match and \<open>$'\<close> for the text after it; \<open>$\<close> followed by anything else is
  copied as it is.
\<close>

fun GetSubstitution :: "jsstring \<Rightarrow> jsstring \<Rightarrow> nat \<Rightarrow> jsstring \<Rightarrow> jsstring" where
  "GetSubstitution matched str position (c # d # rest) =
     (if c = 0x24 then
        (if d = 0x24 then 0x24 # GetSubstitution matched str position rest
         else if d = 0x60 then take position str @ GetSubstitution matched str position rest
         else if d = 0x26 then matched @ GetSubstitution matched str position rest
         else if d = 0x27 then
           drop (min (position + length matched) (length str)) str
             @ GetSubstitution matched str position rest
         else c # GetSubstitution matched str position (d # rest))
      else c # GetSubstitution matched str position (d # rest))"
| "GetSubstitution matched str position [c] = [c]"
| "GetSubstitution matched str position [] = []"

text \<open>
  \<open>s.replace(searchString, replaceValue)\<close> with two strings: the first occurrence only,
  the replacement text expanded by \<open>GetSubstitution\<close>.
\<close>

definition replace :: "jsstring \<Rightarrow> jsstring \<Rightarrow> jsstring \<Rightarrow> jsstring" where
  "replace s searchString replaceValue =
     (case StringIndexOf s searchString of
        None \<Rightarrow> s
      | Some pos \<Rightarrow>
          take pos s @ GetSubstitution searchString s pos replaceValue
            @ drop (pos + length searchString) s)"

text \<open>The operand of \<open>||\<close> and \<open>if (...)\<close>: a string is truthy when it is not empty.\<close>

definition truthy :: "jsstring \<Rightarrow> bool" where
  "truthy s = (s \<noteq> [])"

section \<open>The inline text formatter\<close>

text \<open>
  The \<open>switch\<close> of \<open>handleFormatText\<close>: from the buffer \<open>content\<close>, the selection
  \<open>start\<close>, \<open>end\<close> of the textarea and the command, the new buffer and the new caret.
  A command the switch does not know leaves both as they were initialised.
\<close>

definition formatText :: "string \<Rightarrow> jsstring option \<Rightarrow> jsstring \<Rightarrow> nat \<Rightarrow> nat \<Rightarrow> jsstring \<times> nat" where
  "formatText format val content start end =
     (let selectedText = substring content start end in
      if format = ''bold'' then
        (if truthy selectedText
         then (substring content 0 start @ utf16 ''**'' @ selectedText @ utf16 ''**''
                 @ substring_from content end, end + 4)
         else (substring content 0 start @ utf16 ''****'' @ substring_from content end,
               start + 2))
      else if format = ''italic'' then
        (if truthy selectedText
         then (substring content 0 start @ utf16 ''*'' @ selectedText @ utf16 ''*''
                 @ substring_from content end, end + 2)
         else (substring content 0 start @ utf16 ''**'' @ substring_from content end,
               start + 1))
      else if format = ''hashtag'' then
        (let hashtag = (if truthy selectedText then selectedText else utf16 ''hashtag'')
         in (substring content 0 start @ utf16 ''#'' @ hashtag @ substring_from content end,
             start + length hashtag + 1))
      else if format = ''mention'' then
        (let mention = (if truthy selectedText then selectedText else utf16 ''username'')
         in (substring content 0 start @ utf16 ''@'' @ mention @ substring_from content end,
             start + length mention + 1))
      else if format = ''insert'' then
        (case val of
           Some v \<Rightarrow>
             (if truthy v
              then (substring content 0 start @ v @ substring_from content end,
                    start + length v)
              else (content, start))
         | None \<Rightarrow> (content, start))
      else (content, start))"

section \<open>Data model\<close>

text \<open>
  A slide as the editor and the \<open>slides\<close> table hold it (the field \<open>id\<close> is
  \<open>slide_id\<close> here). \<open>char_count\<close> and \<open>slide_number\<close> are JavaScript numbers.
\<close>

record slide =
  slide_id :: jsstring
  project_id :: jsstring
  slide_number :: int
  content :: jsstring
  title :: "jsstring option"
  tone :: "jsstring option"
  char_count :: int
  created_at :: jsstring
  updated_at :: jsstring

text \<open>A style suggestion (the field \<open>type\<close> is \<open>suggestion_type\<close> here).\<close>

record StyleSuggestion =
  suggestion_type :: string
  original :: jsstring
  suggestion :: jsstring

text \<open>
  The state the editor component works on: \<open>slides\<close>, \<open>currentSlide\<close>, \<open>isAutoSaving\<close>
  and \<open>lastSaved\<close> live in the application store, \<open>editor_content\<close> (the component's
  \<open>content\<close>) and \<open>currentSlideIndex\<close> are component state.
\<close>

record editor =
  slides :: "slide list"
  currentSlide :: "slide option"
  isAutoSaving :: bool
  lastSaved :: "jsstring option"
  editor_content :: jsstring
  currentSlideIndex :: int

text \<open>The textarea the ref points to, reduced to its selection.\<close>

record textarea =
  selectionStart :: nat
  selectionEnd :: nat

section \<open>The application store\<close>

text \<open>
  Modelled from the spec: the mutators of the application store (\<open>useAppStore\<close> of
  \<open>lib/store\<close>, which is not among the sources). The spec has Add and Duplicate append
  the slide to the local collection, Delete remove the slide with the given id from it,
  and a content change update the in-memory slide with the given id.
\<close>

definition setCurrentSlide :: "slide option \<Rightarrow> editor \<Rightarrow> editor" where
  "setCurrentSlide s st = st\<lparr>currentSlide := s\<rparr>"

definition addSlide :: "slide \<Rightarrow> editor \<Rightarrow> editor" where
  "addSlide s st = st\<lparr>slides := slides st @ [s]\<rparr>"

definition updateSlide :: "jsstring \<Rightarrow> slide \<Rightarrow> editor \<Rightarrow> editor" where
  "updateSlide i updates st =
     st\<lparr>slides := map (\<lambda>s. if slide_id s = i then updates else s) (slides st)\<rparr>"

definition deleteSlide :: "jsstring \<Rightarrow> editor \<Rightarrow> editor" where
  "deleteSlide i st = st\<lparr>slides := filter (\<lambda>s. slide_id s \<noteq> i) (slides st)\<rparr>"

definition setAutoSaving :: "bool \<Rightarrow> editor \<Rightarrow> editor" where
  "setAutoSaving b st = st\<lparr>isAutoSaving := b\<rparr>"

definition setLastSaved :: "jsstring \<Rightarrow> editor \<Rightarrow> editor" where
  "setLastSaved t st = st\<lparr>lastSaved := Some t\<rparr>"

section \<open>The content-change pipeline\<close>

text \<open>
  What \<open>handleContentChange\<close> reads from outside: \<open>now\<close> is \<open>new Date().toISOString()\<close>;
  \<open>put_resolved\<close> is \<open>None\<close> when the auto-save \<open>fetch\<close> rejects and the time of
  \<open>setLastSaved(new Date())\<close> when it resolves (with any status).
\<close>

record save_env =
  now :: jsstring
  put_resolved :: "jsstring option"

definition handleContentChange :: "save_env \<Rightarrow> jsstring \<Rightarrow> editor \<Rightarrow> editor" where
  "handleContentChange env v st =
     (let st1 = st\<lparr>editor_content := v\<rparr> in
      case currentSlide st of
        None \<Rightarrow> st1
      | Some cs \<Rightarrow>
          (let updatedSlide =
                 cs\<lparr>content := v, char_count := int (length v), updated_at := now env\<rparr>;
               st2 = updateSlide (slide_id cs) updatedSlide st1;
               st3 = setAutoSaving True st2;
               st4 = (case put_resolved env of
                        Some t \<Rightarrow> setLastSaved t st3
                      | None \<Rightarrow> st3)
           in setAutoSaving False st4))"

text \<open>
  \<open>handleFormatText\<close>: nothing happens without a textarea; otherwise the new buffer goes
  through \<open>handleContentChange\<close> and the second component is the offset later given to
  \<open>setSelectionRange\<close>.
\<close>

definition handleFormatText ::
  "save_env \<Rightarrow> textarea option \<Rightarrow> string \<Rightarrow> jsstring option \<Rightarrow> editor \<Rightarrow> editor \<times> nat option" where
  "handleFormatText env ta format val st =
     (case ta of
        None \<Rightarrow> (st, None)
      | Some t \<Rightarrow>
          (let (newContent, newCursorPos) =
                 formatText format val (editor_content st) (selectionStart t) (selectionEnd t)
           in (handleContentChange env newContent st, Some newCursorPos)))"

section \<open>Applying a style suggestion\<close>

definition handleApplyStyleSuggestion ::
  "save_env \<Rightarrow> textarea option \<Rightarrow> StyleSuggestion \<Rightarrow> editor \<Rightarrow> editor" where
  "handleApplyStyleSuggestion env ta sg st =
     (case ta of
        None \<Rightarrow> st
      | Some t \<Rightarrow>
          (let buf = editor_content st in
           if suggestion_type sg = ''emphasis'' then
             handleContentChange env (replace buf (original sg) (suggestion sg)) st
           else if suggestion_type sg = ''hashtag'' \<or> suggestion_type sg = ''emoji''
                   \<or> suggestion_type sg = ''mention'' then
             (let spacing =
                    (if endsWith (trim buf) (utf16 ''.'') \<or> endsWith (trim buf) (utf16 ''!'')
                        \<or> endsWith (trim buf) (utf16 ''?'')
                     then utf16 '' '' else utf16 '' '')
              in handleContentChange env (trim buf @ spacing @ suggestion sg) st)
           else if suggestion_type sg = ''structure'' then
             handleContentChange env (suggestion sg) st
           else if truthy (original sg) \<and> includes_str buf (original sg) then
             handleContentChange env (replace buf (original sg) (suggestion sg)) st
           else
             handleContentChange env (trim buf @ utf16 '' '' @ suggestion sg) st))"

section \<open>JSON values\<close>

text \<open>
  What \<open>request.json()\<close> can give: the route reads the fields of the body without any
  test of their types. Numbers are integers here. \<open>truthy_json\<close> is the test of
  \<open>||\<close>; \<open>length_property\<close> is \<open>v.length\<close> for a value that is neither \<open>null\<close> nor
  \<open>undefined\<close>: the number of code units of a string, the number of elements of an
  array, the property of that name of an object if it has one, and \<open>undefined\<close>
  (\<open>None\<close>) for a number or a boolean.
\<close>

datatype json =
    Json_null
  | Json_bool bool
  | Json_number int
  | Json_string jsstring
  | Json_array "json list"
  | Json_object "(jsstring \<times> json) list"

fun truthy_json :: "json \<Rightarrow> bool" where
  "truthy_json Json_null = False"
| "truthy_json (Json_bool b) = b"
| "truthy_json (Json_number n) = (n \<noteq> 0)"
| "truthy_json (Json_string s) = truthy s"
| "truthy_json (Json_array xs) = True"
| "truthy_json (Json_object kvs) = True"

definition or_json :: "json option \<Rightarrow> json \<Rightarrow> json" where
  "or_json x d = (case x of Some v \<Rightarrow> if truthy_json v then v else d | None \<Rightarrow> d)"

fun length_property :: "json \<Rightarrow> json option" where
  "length_property (Json_string s) = Some (Json_number (int (length s)))"
| "length_property (Json_array xs) = Some (Json_number (int (length xs)))"
| "length_property (Json_object kvs) = map_of (rev kvs) (utf16 ''length'')"
| "length_property Json_null = None"
| "length_property (Json_bool b) = None"
| "length_property (Json_number n) = None"

section \<open>The create-slide endpoint\<close>

text \<open>
  The tables the route touches. \<open>project_row_id\<close> is the column \<open>id\<close> of
  \<open>carousel_projects\<close>. The \<open>slides\<close> table holds slides: its columns have the types of
  the data model.
\<close>

record project_row =
  project_row_id :: jsstring
  user_id :: jsstring

record database =
  carousel_projects :: "project_row list"
  slides_table :: "slide list"

text \<open>
  The body of a request as the destructuring
  \<open>const { slide_number, content, title, tone } = body\<close> reads it: each field is missing
  (\<open>undefined\<close>) or has a JSON value of any type. A body that is a number, a string, a
  boolean or an array has none of the four fields.
\<close>

record post_body =
  body_slide_number :: "json option"
  body_content :: "json option"
  body_title :: "json option"
  body_tone :: "json option"

text \<open>
  The object the route hands to \<open>insert\<close>. \<open>row_char_count\<close> is \<open>None\<close> when
  \<open>(content || "").length\<close> is \<open>undefined\<close>: the object then has no \<open>char_count\<close>.
\<close>

record insert_row =
  row_project_id :: jsstring
  row_slide_number :: json
  row_content :: json
  row_title :: json
  row_tone :: json
  row_char_count :: "json option"

definition slide_insert :: "jsstring \<Rightarrow> post_body \<Rightarrow> insert_row" where
  "slide_insert i b =
     \<lparr>row_project_id = i,
      row_slide_number = or_json (body_slide_number b) (Json_number 1),
      row_content = or_json (body_content b) (Json_string []),
      row_title = or_json (body_title b) Json_null,
      row_tone = or_json (body_tone b) Json_null,
      row_char_count = length_property (or_json (body_content b) (Json_string []))\<rparr>"

text \<open>
  What the route reads from outside. \<open>requireAuth\<close> (of \<open>lib/auth\<close>, not among the
  sources) is taken by its outcome: the user id of the session, or \<open>None\<close> when it throws
  the error "Authentication required". \<open>select_error\<close> and \<open>insert_error\<close> say that the
  data store fails the query; the three \<open>generated\<close> fields are the id and timestamps
  the data store gives a new row. \<open>ill_typed_insert\<close> is what the data store makes of an
  object whose values do not have the types of the columns: it refuses it (\<open>None\<close>) or
  stores some row of its own making.
\<close>

record server_env =
  requireAuth :: "jsstring option"
  select_error :: bool
  insert_error :: bool
  generated_id :: jsstring
  generated_created_at :: jsstring
  generated_updated_at :: jsstring
  ill_typed_insert :: "slide option"

text \<open>
  The body of a response as \<open>response.json()\<close> and the destructuring \<open>const { slide }\<close>
  read it: an object with a slide, an object with an error text and no slide, or a body
  that makes one of the two throw.
\<close>

datatype response_body = Slide_body slide | Error_body string | Unreadable_body

record response =
  status :: nat
  body :: response_body

definition ok :: "response \<Rightarrow> bool" where
  "ok r = (200 \<le> status r \<and> status r \<le> 299)"

text \<open>\<open>.single()\<close>: the row when exactly one row matches, an error otherwise.\<close>

definition single :: "'a list \<Rightarrow> 'a option" where
  "single rows = (case rows of [r] \<Rightarrow> Some r | _ \<Rightarrow> None)"

definition select_project :: "server_env \<Rightarrow> database \<Rightarrow> jsstring \<Rightarrow> jsstring \<Rightarrow> project_row option" where
  "select_project env db i userId =
     (if select_error env then None
      else single (filter (\<lambda>p. project_row_id p = i \<and> user_id p = userId)
                          (carousel_projects db)))"

text \<open>
  The data store on an insert. An object whose values have the types of the columns (a
  number, a string, two strings or \<open>null\<close>, a number) is stored as it is, with the
  generated id and timestamps, and returned.
\<close>

fun as_number :: "json \<Rightarrow> int option" where
  "as_number (Json_number n) = Some n"
| "as_number v = None"

fun as_text :: "json \<Rightarrow> jsstring option" where
  "as_text (Json_string s) = Some s"
| "as_text v = None"

fun as_nullable_text :: "json \<Rightarrow> jsstring option option" where
  "as_nullable_text Json_null = Some None"
| "as_nullable_text (Json_string s) = Some (Some s)"
| "as_nullable_text v = None"

definition typed_row :: "server_env \<Rightarrow> insert_row \<Rightarrow> slide option" where
  "typed_row env r =
     (case as_number (row_slide_number r) of None \<Rightarrow> None | Some n \<Rightarrow>
      case as_text (row_content r) of None \<Rightarrow> None | Some s \<Rightarrow>
      case as_nullable_text (row_title r) of None \<Rightarrow> None | Some t \<Rightarrow>
      case as_nullable_text (row_tone r) of None \<Rightarrow> None | Some u \<Rightarrow>
      case row_char_count r of None \<Rightarrow> None | Some cc \<Rightarrow>
      case as_number cc of None \<Rightarrow> None | Some c \<Rightarrow>
        Some \<lparr>slide_id = generated_id env,
              project_id = row_project_id r,
              slide_number = n,
              content = s,
              title = t,
              tone = u,
              char_count = c,
              created_at = generated_created_at env,
              updated_at = generated_updated_at env\<rparr>)"

definition insert_slide :: "server_env \<Rightarrow> insert_row \<Rightarrow> database \<Rightarrow> (slide \<times> database) option" where
  "insert_slide env r db =
     (if insert_error env then None
      else
        (case (case typed_row env r of Some s \<Rightarrow> Some s | None \<Rightarrow> ill_typed_insert env) of
           None \<Rightarrow> None
         | Some row \<Rightarrow> Some (row, db\<lparr>slides_table := slides_table db @ [row]\<rparr>)))"

text \<open>
  \<open>POST\<close> of \<open>/api/projects/[id]/slides\<close>. The body is \<open>None\<close> when \<open>request.json()\<close>
  or the destructuring of its result throws; that and every other exception but the
  authentication error end in the status 500 of the \<open>catch\<close> block.
\<close>

definition POST :: "server_env \<Rightarrow> jsstring \<Rightarrow> post_body option \<Rightarrow> database \<Rightarrow> response \<times> database" where
  "POST env i request_body db =
     (case requireAuth env of
        None \<Rightarrow> (\<lparr>status = 401, body = Error_body ''Authentication required''\<rparr>, db)
      | Some userId \<Rightarrow>
          (case request_body of
             None \<Rightarrow> (\<lparr>status = 500, body = Error_body ''Internal server error''\<rparr>, db)
           | Some b \<Rightarrow>
               (case select_project env db i userId of
                  None \<Rightarrow> (\<lparr>status = 404, body = Error_body ''Project not found''\<rparr>, db)
                | Some project \<Rightarrow>
                    (case insert_slide env (slide_insert i b) db of
                       None \<Rightarrow>
                         (\<lparr>status = 500, body = Error_body ''Failed to create slide''\<rparr>, db)
                     | Some (row, db') \<Rightarrow> (\<lparr>status = 200, body = Slide_body row\<rparr>, db')))))"

text \<open>The caller owns the project: the ownership query finds its one row.\<close>

definition owns :: "database \<Rightarrow> jsstring \<Rightarrow> jsstring \<Rightarrow> bool" where
  "owns db userId i =
     (\<exists>p \<in> set (carousel_projects db). project_row_id p = i \<and> user_id p = userId)"

section \<open>The slide collection\<close>

text \<open>
  \<open>fetch\<close> as the editor sees it: it throws, or it resolves with a response.
\<close>

datatype fetch_result = Fetch_threw | Fetch_response response

text \<open>
  \<open>addNewSlide\<close> runs in two parts, with the \<open>await\<close> of \<open>fetch\<close> between them. The
  first part sends \<open>new_slide_request\<close>, built from the collection the handler was
  rendered with. The second part, \<open>addNewSlide\<close> here, runs when \<open>fetch\<close> has settled: it
  works on the state of that moment, but \<open>slides.length\<close> in it is still the length of
  the collection the handler was rendered with, \<open>rendered\<close>. On an ok response the
  source hands the \<open>slide\<close> of the body to the store and moves the index whatever the
  body holds; for a body without a slide that puts \<open>undefined\<close> into the collection, a
  state the slide list here cannot hold: the result is \<open>None\<close> then.
\<close>

definition new_slide_request :: "editor \<Rightarrow> post_body" where
  "new_slide_request st =
     \<lparr>body_slide_number = Some (Json_number (int (length (slides st)) + 1)),
      body_content = Some (Json_string []),
      body_title = None,
      body_tone = None\<rparr>"

definition addNewSlide :: "fetch_result \<Rightarrow> slide list \<Rightarrow> editor \<Rightarrow> editor option" where
  "addNewSlide r rendered st =
     (case r of
        Fetch_threw \<Rightarrow> Some st
      | Fetch_response resp \<Rightarrow>
          (if ok resp then
             (case body resp of
                Slide_body s \<Rightarrow>
                  Some ((addSlide s st)\<lparr>currentSlideIndex := int (length rendered)\<rparr>)
              | Error_body e \<Rightarrow> None
              | Unreadable_body \<Rightarrow> Some st)
           else Some st))"

text \<open>What \<open>duplicateSlide\<close> reads from outside: \<open>generateId()\<close> and the two dates.\<close>

record dup_env =
  generateId :: jsstring
  dup_created_at :: jsstring
  dup_updated_at :: jsstring

definition duplicateSlide :: "dup_env \<Rightarrow> editor \<Rightarrow> editor" where
  "duplicateSlide env st =
     (case currentSlide st of
        None \<Rightarrow> st
      | Some cs \<Rightarrow>
          (let duplicatedSlide =
                 cs\<lparr>slide_id := generateId env,
                    slide_number := int (length (slides st)) + 1,
                    created_at := dup_created_at env,
                    updated_at := dup_updated_at env\<rparr>
           in (addSlide duplicatedSlide st)\<lparr>currentSlideIndex := int (length (slides st))\<rparr>))"

text \<open>
  \<open>deleteCurrentSlide\<close>: the outcome of the remote \<open>DELETE\<close> is only logged and does not
  reach the local state.
\<close>

definition deleteCurrentSlide :: "editor \<Rightarrow> editor" where
  "deleteCurrentSlide st =
     (case currentSlide st of
        None \<Rightarrow> st
      | Some cs \<Rightarrow>
          (if length (slides st) > 1
           then (deleteSlide (slide_id cs) st)
                  \<lparr>currentSlideIndex := max 0 (currentSlideIndex st - 1)\<rparr>
           else st))"

section \<open>Effects and buttons\<close>

text \<open>\<open>slides[i]\<close>: \<open>undefined\<close> outside the array.\<close>

definition slide_at :: "slide list \<Rightarrow> int \<Rightarrow> slide option" where
  "slide_at xs i = (if 0 \<le> i \<and> i < int (length xs) then Some (xs ! nat i) else None)"

text \<open>
  The two \<open>useEffect\<close> hooks. After an event handler has turned \<open>prev\<close> into \<open>st\<close>, the
  hook on \<open>[currentSlideIndex, slides]\<close> runs if one of them changed, then the hook on
  \<open>[currentSlide]\<close> runs if the current slide changed.
\<close>

definition effect_currentSlide :: "editor \<Rightarrow> editor" where
  "effect_currentSlide st =
     (if length (slides st) > 0 \<and> currentSlideIndex st < int (length (slides st))
      then setCurrentSlide (slide_at (slides st) (currentSlideIndex st)) st
      else st)"

definition effect_content :: "editor \<Rightarrow> editor" where
  "effect_content st =
     (case currentSlide st of
        Some cs \<Rightarrow> st\<lparr>editor_content := content cs\<rparr>
      | None \<Rightarrow> st)"

definition run_effects :: "editor \<Rightarrow> editor \<Rightarrow> editor" where
  "run_effects prev st =
     (let st1 = (if currentSlideIndex st \<noteq> currentSlideIndex prev \<or> slides st \<noteq> slides prev
                 then effect_currentSlide st else st)
      in if currentSlide st1 \<noteq> currentSlide prev then effect_content st1 else st1)"

text \<open>The \<open>disabled\<close> properties of the Add, Duplicate and Delete buttons.\<close>

definition add_disabled :: "editor \<Rightarrow> bool" where
  "add_disabled st = (length (slides st) \<ge> 10)"

definition duplicate_disabled :: "editor \<Rightarrow> bool" where
  "duplicate_disabled st = (currentSlide st = None \<or> length (slides st) \<ge> 10)"

definition delete_disabled :: "editor \<Rightarrow> bool" where
  "delete_disabled st = (currentSlide st = None \<or> length (slides st) \<le> 1)"

section \<open>The editor in front of the data store\<close>

text \<open>
  The network between the editor and the route: the request arrives and the response
  comes back, or the request is lost, or the response is lost after the route has run.
\<close>

datatype network = Delivered | Request_lost | Response_lost

record add_env =
  network :: network
  server :: server_env

definition fetch_POST :: "add_env \<Rightarrow> jsstring \<Rightarrow> post_body \<Rightarrow> database \<Rightarrow> fetch_result \<times> database" where
  "fetch_POST env projectId b db =
     (case network env of
        Request_lost \<Rightarrow> (Fetch_threw, db)
      | Response_lost \<Rightarrow> (Fetch_threw, snd (POST (server env) projectId (Some b) db))
      | Delivered \<Rightarrow>
          (let (resp, db') = POST (server env) projectId (Some b) db
           in (Fetch_response resp, db')))"

text \<open>
  An Add on its way: the project and the body of the request, and the collection the
  handler was rendered with. The whole application is the editor, the data store and the
  Adds that have been sent and have not settled yet.
\<close>

record add_request =
  request_project :: jsstring
  request_payload :: post_body
  rendered_slides :: "slide list"

record app =
  ui :: editor
  data_store :: database
  in_flight :: "add_request list"

text \<open>
  A click on the Add button of the editor of project \<open>projectId\<close>: a disabled button
  does nothing; otherwise the first part of \<open>addNewSlide\<close> runs and the request is on its
  way. Nothing is rendered anew, since no state has changed: the button is as it was.
\<close>

definition click_add :: "jsstring \<Rightarrow> app \<Rightarrow> app" where
  "click_add projectId a =
     (if add_disabled (ui a) then a
      else a\<lparr>in_flight := in_flight a @
               [\<lparr>request_project = projectId,
                 request_payload = new_slide_request (ui a),
                 rendered_slides = slides (ui a)\<rparr>]\<rparr>)"

text \<open>
  The Add at position \<open>n\<close> of those on their way settles: the route runs on the data
  store as it is now, the second part of \<open>addNewSlide\<close> runs on the editor as it is now,
  and the effects follow.
\<close>

definition settle_add :: "nat \<Rightarrow> add_env \<Rightarrow> app \<Rightarrow> app option" where
  "settle_add n env a =
     (if n < length (in_flight a) then
        (let rq = in_flight a ! n;
             (r, db') = fetch_POST env (request_project rq) (request_payload rq) (data_store a)
         in case addNewSlide r (rendered_slides rq) (ui a) of
              None \<Rightarrow> None
            | Some st' \<Rightarrow>
                Some \<lparr>ui = run_effects (ui a) st',
                      data_store = db',
                      in_flight = take n (in_flight a) @ drop (Suc n) (in_flight a)\<rparr>)
      else Some a)"

text \<open>A click on Duplicate: the handler runs at once, without the data store.\<close>

definition click_duplicate :: "dup_env \<Rightarrow> app \<Rightarrow> app" where
  "click_duplicate env a =
     (if duplicate_disabled (ui a) then a
      else a\<lparr>ui := run_effects (ui a) (duplicateSlide env (ui a))\<rparr>)"

datatype event = Click_add | Settle_add nat add_env | Click_duplicate dup_env

fun handle_event :: "jsstring \<Rightarrow> event \<Rightarrow> app \<Rightarrow> app option" where
  "handle_event projectId Click_add a = Some (click_add projectId a)"
| "handle_event projectId (Settle_add n env) a = settle_add n env a"
| "handle_event projectId (Click_duplicate env) a = Some (click_duplicate env a)"

fun run_events :: "jsstring \<Rightarrow> event list \<Rightarrow> app \<Rightarrow> app option" where
  "run_events projectId [] a = Some a"
| "run_events projectId (e # es) a =
     (case handle_event projectId e a of
        None \<Rightarrow> None
      | Some a' \<Rightarrow> run_events projectId es a')"

section \<open>Stripping the bold delimiters\<close>

text \<open>
  The spec's inverse of bold, written from the spec's words and not from the source:
  delete the characters at the offsets \<open>s\<close>, \<open>s + 1\<close>, \<open>e + 2\<close> and \<open>e + 3\<close> of the
  result (the higher offsets first, so that the lower ones still name the same characters).
\<close>

definition delete_at :: "nat \<Rightarrow> 'a list \<Rightarrow> 'a list" where
  "delete_at i xs = take i xs @ drop (Suc i) xs"

definition strip_bold_delimiters :: "nat \<Rightarrow> nat \<Rightarrow> jsstring \<Rightarrow> jsstring" where
  "strip_bold_delimiters s e r =
     delete_at s (delete_at (s + 1) (delete_at (e + 2) (delete_at (e + 3) r)))"

section \<open>The character count\<close>

text \<open>A slide whose \<open>char_count\<close> is the length of its \<open>content\<close>, in a slide, in the
  editor and in the \<open>slides\<close> table. An Add on its way is well typed when the object the
  route builds from its body has the types of the columns.\<close>

definition slide_inv :: "slide \<Rightarrow> bool" where
  "slide_inv s = (char_count s = int (length (content s)))"

definition editor_inv :: "editor \<Rightarrow> bool" where
  "editor_inv st =
     (list_all slide_inv (slides st)
      \<and> (case currentSlide st of None \<Rightarrow> True | Some cs \<Rightarrow> slide_inv cs))"

definition db_inv :: "database \<Rightarrow> bool" where
  "db_inv db = list_all slide_inv (slides_table db)"

definition well_typed :: "insert_row \<Rightarrow> bool" where
  "well_typed r =
     (as_number (row_slide_number r) \<noteq> None \<and> as_text (row_content r) \<noteq> None
      \<and> as_nullable_text (row_title r) \<noteq> None \<and> as_nullable_text (row_tone r) \<noteq> None
      \<and> (case row_char_count r of None \<Rightarrow> False | Some cc \<Rightarrow> as_number cc \<noteq> None))"

definition app_inv :: "app \<Rightarrow> bool" where
  "app_inv a =
     (editor_inv (ui a) \<and> db_inv (data_store a)
      \<and> list_all (\<lambda>rq. well_typed (slide_insert (request_project rq) (request_payload rq)))
           (in_flight a))"

section \<open>Sample data\<close>

text \<open>
  A project \<open>p1\<close> of user \<open>alice\<close> with two slides, an editor showing the first of
  them, and the surroundings of a few requests; the concrete runs below use them.
\<close>

definition sample_slide :: slide where
  "sample_slide =
     \<lparr>slide_id = utf16 ''s1'', project_id = utf16 ''p1'', slide_number = 1,
      content = utf16 ''hello world'', title = None, tone = None, char_count = 11,
      created_at = utf16 ''t0'', updated_at = utf16 ''t0''\<rparr>"

definition second_slide :: slide where
  "second_slide =
     \<lparr>slide_id = utf16 ''s2'', project_id = utf16 ''p1'', slide_number = 2,
      content = utf16 ''bye'', title = None, tone = None, char_count = 3,
      created_at = utf16 ''t1'', updated_at = utf16 ''t1''\<rparr>"

definition created_slide :: slide where
  "created_slide =
     \<lparr>slide_id = utf16 ''s3'', project_id = utf16 ''p1'', slide_number = 3,
      content = [], title = None, tone = None, char_count = 0,
      created_at = utf16 ''t2'', updated_at = utf16 ''t2''\<rparr>"

definition sample_editor :: editor where
  "sample_editor =
     \<lparr>slides = [sample_slide, second_slide], currentSlide = Some sample_slide,
      isAutoSaving = False, lastSaved = None,
      editor_content = utf16 ''hello world'', currentSlideIndex = 0\<rparr>"


text \<open>Slides \<open>s-a\<close>, \<open>s-b\<close>, ... with the numbers 1, 2, ..., and editors showing nine and
  ten of them.\<close>

definition numbered_slide :: "nat \<Rightarrow> slide" where
  "numbered_slide n =
     sample_slide\<lparr>slide_id := utf16 ''s-'' @ [of_nat (0x60 + n)], slide_number := int n\<rparr>"

definition nine_editor :: editor where
  "nine_editor =
     sample_editor\<lparr>slides := map numbered_slide [1, 2, 3, 4, 5, 6, 7, 8, 9],
                    currentSlide := Some (numbered_slide 1)\<rparr>"

definition full_editor :: editor where
  "full_editor =
     sample_editor\<lparr>slides := map numbered_slide [1, 2, 3, 4, 5, 6, 7, 8, 9, 10],
                    currentSlide := Some (numbered_slide 1)\<rparr>"

definition spaced_editor :: editor where
  "spaced_editor = sample_editor\<lparr>editor_content := utf16 '' Nice day!  ''\<rparr>"

definition sample_db :: database where
  "sample_db =
     \<lparr>carousel_projects = [\<lparr>project_row_id = utf16 ''p1'', user_id = utf16 ''alice''\<rparr>],
      slides_table = [sample_slide, second_slide]\<rparr>"

definition sample_server :: server_env where
  "sample_server =
     \<lparr>requireAuth = Some (utf16 ''alice''), select_error = False, insert_error = False,
      generated_id = utf16 ''s3'', generated_created_at = utf16 ''t2'',
      generated_updated_at = utf16 ''t2'', ill_typed_insert = None\<rparr>"

definition anonymous_server :: server_env where
  "anonymous_server = sample_server\<lparr>requireAuth := None\<rparr>"

definition mallory_server :: server_env where
  "mallory_server = sample_server\<lparr>requireAuth := Some (utf16 ''mallory'')\<rparr>"

definition sample_add_env :: add_env where
  "sample_add_env = \<lparr>network = Delivered, server = sample_server\<rparr>"

definition mallory_add_env :: add_env where
  "mallory_add_env = \<lparr>network = Delivered, server = mallory_server\<rparr>"

definition offline_add_env :: add_env where
  "offline_add_env = \<lparr>network = Request_lost, server = sample_server\<rparr>"

definition sample_dup_env :: dup_env where
  "sample_dup_env =
     \<lparr>generateId = utf16 ''s4'', dup_created_at = utf16 ''t3'', dup_updated_at = utf16 ''t3''\<rparr>"

definition sample_save_env :: save_env where
  "sample_save_env = \<lparr>now = utf16 ''t4'', put_resolved = Some (utf16 ''t5'')\<rparr>"

definition sample_response :: response where
  "sample_response = \<lparr>status = 200, body = Slide_body created_slide\<rparr>"


definition later_add_env :: add_env where
  "later_add_env =
     \<lparr>network = Delivered,
      server = sample_server\<lparr>generated_id := utf16 ''s5'', generated_created_at := utf16 ''t6'',
                 generated_updated_at := utf16 ''t6''\<rparr>\<rparr>"

definition sample_app :: app where
  "sample_app = \<lparr>ui = sample_editor, data_store = sample_db, in_flight = []\<rparr>"

definition nine_app :: app where
  "nine_app = \<lparr>ui = nine_editor, data_store = sample_db, in_flight = []\<rparr>"

definition full_app :: app where
  "full_app = \<lparr>ui = full_editor, data_store = sample_db, in_flight = []\<rparr>"

text \<open>Four request bodies: \<open>{content: "hi"}\<close>, \<open>{}\<close>, \<open>{content: 12345}\<close> and
  \<open>{content: ["ab", "c"]}\<close>.\<close>

definition text_body :: post_body where
  "text_body =
     \<lparr>body_slide_number = None, body_content = Some (Json_string (utf16 ''hi'')),
      body_title = None, body_tone = None\<rparr>"

definition empty_body :: post_body where
  "empty_body =
     \<lparr>body_slide_number = None, body_content = None, body_title = None, body_tone = None\<rparr>"

definition number_body :: post_body where
  "number_body =
     \<lparr>body_slide_number = None, body_content = Some (Json_number 12345),
      body_title = None, body_tone = None\<rparr>"

definition array_body :: post_body where
  "array_body =
     \<lparr>body_slide_number = None,
      body_content = Some (Json_array [Json_string (utf16 ''ab''), Json_string (utf16 ''c'')]),
      body_title = None, body_tone = None\<rparr>"

section \<open>Properties of the string operations\<close>

lemma substring_in_bounds:
  "a \<le> b \<Longrightarrow> b \<le> length s \<Longrightarrow> substring s a b = take (b - a) (drop a s)"
  by (simp add: substring_def Let_def min_def max_def)

lemma substring_0:
  "a \<le> length s \<Longrightarrow> substring s 0 a = take a s"
  by (simp add: substring_def Let_def)

lemma substring_from_in_bounds:
  "a \<le> length s \<Longrightarrow> substring_from s a = drop a s"
  by (simp add: substring_from_def)

lemma truthy_selection:
  "a \<le> b \<Longrightarrow> b \<le> length s \<Longrightarrow> truthy (substring s a b) \<longleftrightarrow> a < b"
  by (auto simp: truthy_def substring_in_bounds)

lemma length_utf16: "length (utf16 s) = length s"
  by (simp add: utf16_def)

lemma utf16_append: "utf16 (s @ t) = utf16 s @ utf16 t"
  by (simp add: utf16_def)

lemma editor_content_handleContentChange:
  "editor_content (handleContentChange env v st) = v"
  by (simp add: handleContentChange_def Let_def updateSlide_def setAutoSaving_def
      setLastSaved_def split: option.splits)

lemma formatText_bold:
  assumes "start \<le> end" and "end \<le> length B"
  shows "formatText ''bold'' val B start end =
     (if start < end
      then (take start B @ utf16 ''**'' @ take (end - start) (drop start B) @ utf16 ''**''
              @ drop end B, end + 4)
      else (take start B @ utf16 ''****'' @ drop start B, start + 2))"
  using assms
  by (auto simp: formatText_def Let_def substring_in_bounds substring_0
      substring_from_in_bounds truthy_def)

lemma formatText_hashtag:
  assumes "start \<le> end" and "end \<le> length B"
  shows "formatText ''hashtag'' val B start end =
     (if start < end
      then (take start B @ utf16 ''#'' @ take (end - start) (drop start B) @ drop end B,
            end + 1)
      else (take start B @ utf16 ''#hashtag'' @ drop start B, start + length ''hashtag'' + 1))"
  using assms
  by (auto simp: formatText_def Let_def substring_in_bounds substring_0
      substring_from_in_bounds truthy_def length_utf16 utf16_def)

lemma formatText_mention:
  assumes "start \<le> end" and "end \<le> length B"
  shows "formatText ''mention'' val B start end =
     (if start < end
      then (take start B @ utf16 ''@'' @ take (end - start) (drop start B) @ drop end B,
            end + 1)
      else (take start B @ utf16 ''@username'' @ drop start B, start + length ''username'' + 1))"
  using assms
  by (auto simp: formatText_def Let_def substring_in_bounds substring_0
      substring_from_in_bounds truthy_def length_utf16 utf16_def)

lemma handleFormatText_Some:
  "handleFormatText env (Some \<lparr>selectionStart = start, selectionEnd = end\<rparr>) format val st =
     (handleContentChange env (fst (formatText format val (editor_content st) start end)) st,
      Some (snd (formatText format val (editor_content st) start end)))"
  by (simp add: handleFormatText_def Let_def split: prod.splits)

section \<open>Formatting commands\<close>

text \<open>
  C2. For every buffer \<open>B\<close> and every selection \<open>[start, end)\<close> within its bounds, the bold
  command on a non-empty selection gives the buffer
  \<open>B[0,start) ++ "**" ++ B[start,end) ++ "**" ++ B[end,..)\<close> and the caret \<open>end + 4\<close>; on
  an empty selection it gives \<open>B[0,start) ++ "****" ++ B[start,..)\<close> and the caret
  \<open>start + 2\<close>. The buffer "hello world" with the selection (0, 5) becomes
  "**hello** world" with the caret at 9.
\<close>

theorem bold_format:
  assumes "start \<le> end" and "end \<le> length B" and "editor_content st = B"
  shows "editor_content (fst (handleFormatText env
             (Some \<lparr>selectionStart = start, selectionEnd = end\<rparr>) ''bold'' val st)) =
           (if start < end
            then take start B @ utf16 ''**'' @ take (end - start) (drop start B) @ utf16 ''**''
                   @ drop end B
            else take start B @ utf16 ''****'' @ drop start B)
       \<and> snd (handleFormatText env
             (Some \<lparr>selectionStart = start, selectionEnd = end\<rparr>) ''bold'' val st) =
           Some (if start < end then end + 4 else start + 2)
       \<and> formatText ''bold'' None (utf16 ''hello world'') 0 5 = (utf16 ''**hello** world'', 9)"
proof -
  have hello: "formatText ''bold'' None (utf16 ''hello world'') 0 5 = (utf16 ''**hello** world'', 9)"
    by (simp add: formatText_bold length_utf16) (simp add: utf16_def)
  show ?thesis
    using assms hello
    by (simp add: handleFormatText_Some formatText_bold editor_content_handleContentChange)
qed

theorem bold_format_witness:
  "(0::nat) \<le> 5 \<and> 5 \<le> length (utf16 ''hello world'')
   \<and> editor_content sample_editor = utf16 ''hello world''
   \<and> editor_content (fst (handleFormatText sample_save_env
         (Some \<lparr>selectionStart = 0, selectionEnd = 5\<rparr>) ''bold'' None sample_editor)) =
       utf16 ''**hello** world''
   \<and> snd (handleFormatText sample_save_env
         (Some \<lparr>selectionStart = 0, selectionEnd = 5\<rparr>) ''bold'' None sample_editor) = Some 9
   \<and> editor_content (fst (handleFormatText sample_save_env
         (Some \<lparr>selectionStart = 5, selectionEnd = 5\<rparr>) ''bold'' None sample_editor)) =
       utf16 ''hello**** world''
   \<and> snd (handleFormatText sample_save_env
         (Some \<lparr>selectionStart = 5, selectionEnd = 5\<rparr>) ''bold'' None sample_editor) = Some 7"
  using bold_format [of 0 5 "utf16 ''hello world''" sample_editor sample_save_env None]
    bold_format [of 5 5 "utf16 ''hello world''" sample_editor sample_save_env None]
  by (simp add: sample_editor_def utf16_def)

text \<open>
  C7. For every buffer and every selection within its bounds, the hashtag command on an
  empty selection inserts exactly "#hashtag" at the caret and gives the caret
  \<open>start + length "hashtag" + 1\<close>; on a non-empty selection it replaces the selection by
  "#" followed by the selected text, and the caret lands right after the inserted text:
  what follows is the old text after the selection, with no space in between. The mention
  command does the same with "@" and "username".
\<close>

theorem hashtag_mention_format:
  assumes "start \<le> end" and "end \<le> length B" and "editor_content st = B"
    and "ta = Some \<lparr>selectionStart = start, selectionEnd = end\<rparr>"
  shows "editor_content (fst (handleFormatText env ta ''hashtag'' val st)) =
           (if start < end
            then take start B @ utf16 ''#'' @ take (end - start) (drop start B) @ drop end B
            else take start B @ utf16 ''#hashtag'' @ drop start B)
       \<and> snd (handleFormatText env ta ''hashtag'' val st) =
           Some (if start < end then start + length (utf16 ''#'' @ take (end - start) (drop start B))
                 else start + length ''hashtag'' + 1)
       \<and> editor_content (fst (handleFormatText env ta ''mention'' val st)) =
           (if start < end
            then take start B @ utf16 ''@'' @ take (end - start) (drop start B) @ drop end B
            else take start B @ utf16 ''@username'' @ drop start B)
       \<and> snd (handleFormatText env ta ''mention'' val st) =
           Some (if start < end then start + length (utf16 ''@'' @ take (end - start) (drop start B))
                 else start + length ''username'' + 1)"
  using assms
  by (simp add: handleFormatText_Some formatText_hashtag formatText_mention
      editor_content_handleContentChange length_utf16)

theorem hashtag_mention_format_witness:
  "(6::nat) \<le> 11 \<and> 11 \<le> length (utf16 ''hello world'')
   \<and> editor_content sample_editor = utf16 ''hello world''
   \<and> editor_content (fst (handleFormatText sample_save_env
         (Some \<lparr>selectionStart = 6, selectionEnd = 11\<rparr>) ''hashtag'' None sample_editor)) =
       utf16 ''hello #world''
   \<and> snd (handleFormatText sample_save_env
         (Some \<lparr>selectionStart = 6, selectionEnd = 11\<rparr>) ''hashtag'' None sample_editor) = Some 12
   \<and> editor_content (fst (handleFormatText sample_save_env
         (Some \<lparr>selectionStart = 6, selectionEnd = 11\<rparr>) ''mention'' None sample_editor)) =
       utf16 ''hello @world''
   \<and> snd (handleFormatText sample_save_env
         (Some \<lparr>selectionStart = 6, selectionEnd = 11\<rparr>) ''mention'' None sample_editor) = Some 12
   \<and> editor_content (fst (handleFormatText sample_save_env
         (Some \<lparr>selectionStart = 11, selectionEnd = 11\<rparr>) ''hashtag'' None sample_editor)) =
       utf16 ''hello world#hashtag''
   \<and> snd (handleFormatText sample_save_env
         (Some \<lparr>selectionStart = 11, selectionEnd = 11\<rparr>) ''hashtag'' None sample_editor) = Some 19
   \<and> editor_content (fst (handleFormatText sample_save_env
         (Some \<lparr>selectionStart = 11, selectionEnd = 11\<rparr>) ''mention'' None sample_editor)) =
       utf16 ''hello world@username''
   \<and> snd (handleFormatText sample_save_env
         (Some \<lparr>selectionStart = 11, selectionEnd = 11\<rparr>) ''mention'' None sample_editor) = Some 20"
  using hashtag_mention_format [of 6 11 "utf16 ''hello world''" sample_editor
      "Some \<lparr>selectionStart = 6, selectionEnd = 11\<rparr>" sample_save_env None]
    hashtag_mention_format [of 11 11 "utf16 ''hello world''" sample_editor
      "Some \<lparr>selectionStart = 11, selectionEnd = 11\<rparr>" sample_save_env None]
  by (simp add: sample_editor_def utf16_def)

lemma delete_at_append_left:
  "i < length xs \<Longrightarrow> delete_at i (xs @ ys) = delete_at i xs @ ys"
  by (simp add: delete_at_def)

lemma delete_at_append_right:
  "delete_at (length xs + i) (xs @ ys) = xs @ delete_at i ys"
  by (simp add: delete_at_def)

lemma delete_at_0: "delete_at 0 (x # xs) = xs"
  by (simp add: delete_at_def)

lemma strip_wrapped:
  assumes "length p = s" and "s + length m = e"
  shows "strip_bold_delimiters s e (p @ [a, b] @ m @ [c, d] @ q) = p @ m @ q"
proof -
  have e3: "e + 3 = length (p @ [a, b] @ m @ [c]) + 0" using assms by simp
  have e2: "e + 2 = length (p @ [a, b] @ m) + 0" using assms by simp
  have s1: "s + 1 = length (p @ [a]) + 0" using assms by simp
  have s0: "s = length p + 0" using assms by simp
  have "delete_at (e + 3) (p @ [a, b] @ m @ [c, d] @ q) = p @ [a, b] @ m @ [c] @ q"
    using delete_at_append_right [of "p @ [a, b] @ m @ [c]" 0 "d # q"]
    unfolding e3 by (simp add: delete_at_0)
  moreover have "delete_at (e + 2) (p @ [a, b] @ m @ [c] @ q) = p @ [a, b] @ m @ q"
    using delete_at_append_right [of "p @ [a, b] @ m" 0 "c # q"]
    unfolding e2 by (simp add: delete_at_0)
  moreover have "delete_at (s + 1) (p @ [a, b] @ m @ q) = p @ [a] @ m @ q"
    using delete_at_append_right [of "p @ [a]" 0 "b # m @ q"]
    unfolding s1 by (simp add: delete_at_0)
  moreover have "delete_at s (p @ [a] @ m @ q) = p @ m @ q"
    using delete_at_append_right [of p 0 "a # m @ q"]
    unfolding s0 by (simp add: delete_at_0)
  ultimately show ?thesis
    by (simp add: strip_bold_delimiters_def)
qed

lemma wrapped_nth:
  assumes "length p = s" and "s + length m = e"
  shows "(p @ [a, b] @ m @ [c, d] @ q) ! s = a"
    and "(p @ [a, b] @ m @ [c, d] @ q) ! (s + 1) = b"
    and "(p @ [a, b] @ m @ [c, d] @ q) ! (e + 2) = c"
    and "(p @ [a, b] @ m @ [c, d] @ q) ! (e + 3) = d"
proof -
  show "(p @ [a, b] @ m @ [c, d] @ q) ! s = a"
    and "(p @ [a, b] @ m @ [c, d] @ q) ! (s + 1) = b"
    using assms(1) by (simp_all add: nth_append)
  have split: "p @ [a, b] @ m @ [c, d] @ q = (p @ [a, b] @ m) @ ([c, d] @ q)"
    by simp
  have len: "length (p @ [a, b] @ m) = e + 2"
    using assms by simp
  show "(p @ [a, b] @ m @ [c, d] @ q) ! (e + 2) = c"
    unfolding split using nth_append_length_plus [of "p @ [a, b] @ m" "[c, d] @ q" 0]
    by (simp only: len) simp
  show "(p @ [a, b] @ m @ [c, d] @ q) ! (e + 3) = d"
    unfolding split using nth_append_length_plus [of "p @ [a, b] @ m" "[c, d] @ q" 1]
    by (simp only: len) (simp add: numeral_3_eq_3)
qed

lemma bold_shape:
  assumes "s \<le> e" and "e \<le> length B"
  shows "fst (formatText ''bold'' val B s e) =
           take s B @ [0x2A, 0x2A] @ take (e - s) (drop s B) @ [0x2A, 0x2A] @ drop e B"
  using assms by (auto simp: formatText_bold utf16_def)

text \<open>
  C9. For every buffer \<open>B\<close> and every selection \<open>[s, e)\<close> within its bounds, the buffer
  that the bold command produces has an asterisk at each of the offsets \<open>s\<close>, \<open>s + 1\<close>,
  \<open>e + 2\<close> and \<open>e + 3\<close>, and deleting the characters at these four offsets gives \<open>B\<close>
  back.
\<close>

theorem bold_round_trip:
  assumes "s \<le> e" and "e \<le> length B" and "editor_content st = B"
    and "ta = Some \<lparr>selectionStart = s, selectionEnd = e\<rparr>"
  shows "(let r = editor_content (fst (handleFormatText env ta ''bold'' val st))
          in strip_bold_delimiters s e r = B
             \<and> r ! s = 0x2A \<and> r ! (s + 1) = 0x2A \<and> r ! (e + 2) = 0x2A \<and> r ! (e + 3) = 0x2A)"
proof -
  let ?p = "take s B" and ?m = "take (e - s) (drop s B)" and ?q = "drop e B"
  have r: "editor_content (fst (handleFormatText env ta ''bold'' val st)) =
             ?p @ [0x2A, 0x2A] @ ?m @ [0x2A, 0x2A] @ ?q"
    using assms(3,4) bold_shape [OF assms(1,2), of val]
    by (simp add: handleFormatText_Some editor_content_handleContentChange)
  have lens: "length ?p = s" "s + length ?m = e"
    using assms(1,2) by simp_all
  have "?p @ ?m @ ?q = B"
    using assms(1,2)
    by (metis append_take_drop_id drop_drop le_add_diff_inverse2 add.commute)
  then have "strip_bold_delimiters s e (?p @ [0x2A, 0x2A] @ ?m @ [0x2A, 0x2A] @ ?q) = B"
    using strip_wrapped [OF lens] by simp
  then show ?thesis
    unfolding Let_def r using wrapped_nth [OF lens] by simp
qed

theorem bold_round_trip_witness:
  "(0::nat) \<le> 5 \<and> 5 \<le> length (utf16 ''hello world'')
   \<and> editor_content sample_editor = utf16 ''hello world''
   \<and> editor_content (fst (handleFormatText sample_save_env
           (Some \<lparr>selectionStart = 0, selectionEnd = 5\<rparr>) ''bold'' None sample_editor)) =
       utf16 ''**hello** world''
   \<and> strip_bold_delimiters 0 5 (utf16 ''**hello** world'') = utf16 ''hello world''"
  using bold_round_trip [of 0 5 "utf16 ''hello world''" sample_editor
      "Some \<lparr>selectionStart = 0, selectionEnd = 5\<rparr>" sample_save_env None]
  by (simp add: sample_editor_def handleFormatText_Some formatText_bold
      editor_content_handleContentChange length_utf16)
    (simp add: utf16_def)

section \<open>Style suggestions\<close>

text \<open>
  C8. For every buffer \<open>B\<close> and every style suggestion of type hashtag, emoji or mention,
  applying the suggestion produces exactly \<open>trim B ++ " " ++ suggestion\<close>: one space,
  whether or not the trimmed buffer ends in punctuation.
\<close>

theorem style_suggestion_append:
  assumes "suggestion_type sg = ''hashtag'' \<or> suggestion_type sg = ''emoji''
           \<or> suggestion_type sg = ''mention''"
  shows "editor_content (handleApplyStyleSuggestion env (Some ta) sg st) =
           trim (editor_content st) @ utf16 '' '' @ suggestion sg"
  using assms
  by (auto simp: handleApplyStyleSuggestion_def Let_def editor_content_handleContentChange)

theorem style_suggestion_append_witness:
  "suggestion_type \<lparr>suggestion_type = ''hashtag'', original = [], suggestion = utf16 ''#sun''\<rparr>
     = ''hashtag''
   \<and> editor_content (handleApplyStyleSuggestion sample_save_env
        (Some \<lparr>selectionStart = 0, selectionEnd = 0\<rparr>)
        \<lparr>suggestion_type = ''hashtag'', original = [], suggestion = utf16 ''#sun''\<rparr>
        spaced_editor) = utf16 ''Nice day! #sun''"
  using style_suggestion_append [of
      "\<lparr>suggestion_type = ''hashtag'', original = [], suggestion = utf16 ''#sun''\<rparr>"
      sample_save_env "\<lparr>selectionStart = 0, selectionEnd = 0\<rparr>" spaced_editor]
  by (simp add: spaced_editor_def sample_editor_def trim_def utf16_def isWhiteSpace_def)

lemma GetSubstitution_plain:
  "0x24 \<notin> set r \<Longrightarrow> GetSubstitution m s p r = r"
  by (induction m s p r rule: GetSubstitution.induct) auto

lemma StringIndexOf_empty: "StringIndexOf s [] = Some 0"
  by (cases s) simp_all

lemma replace_empty_search:
  "replace s [] r = GetSubstitution [] s 0 r @ s"
  by (simp add: replace_def StringIndexOf_empty)

text \<open>
  An emphasis suggestion with an empty \<open>original\<close> puts its text in front of the buffer
  when the text has no dollar sign in it.
\<close>

lemma emphasis_empty_original_plain:
  assumes "suggestion_type sg = ''emphasis''" and "original sg = []"
    and "0x24 \<notin> set (suggestion sg)"
  shows "editor_content (handleApplyStyleSuggestion env (Some ta) sg st) =
           suggestion sg @ editor_content st"
  using assms
  by (simp add: handleApplyStyleSuggestion_def Let_def editor_content_handleContentChange
      replace_empty_search GetSubstitution_plain)

text \<open>
  C10. For an emphasis suggestion with an empty \<open>original\<close> the result should be the
  suggestion text followed by the buffer. The source hands the text to \<open>replace\<close> as a
  replacement pattern, so a text with \<open>$$\<close> in it does not arrive as it is: on the buffer
  "hello world" the suggestion "$$ off: " gives "$ off: hello world", not
  "$$ off: hello world".
\<close>

theorem emphasis_empty_original_dollar:
  "editor_content (handleApplyStyleSuggestion sample_save_env
       (Some \<lparr>selectionStart = 0, selectionEnd = 0\<rparr>)
       \<lparr>suggestion_type = ''emphasis'', original = [], suggestion = utf16 ''$$ off: ''\<rparr>
       sample_editor) = utf16 ''$ off: hello world''
   \<and> utf16 ''$ off: hello world'' \<noteq> utf16 ''$$ off: '' @ editor_content sample_editor"
  by (simp add: handleApplyStyleSuggestion_def Let_def editor_content_handleContentChange
      replace_empty_search sample_editor_def utf16_def)

section \<open>The slide collection\<close>

lemma slides_run_effects: "slides (run_effects prev st) = slides st"
  by (simp add: run_effects_def effect_currentSlide_def effect_content_def setCurrentSlide_def
      Let_def split: option.splits)

lemma currentSlideIndex_run_effects:
  "currentSlideIndex (run_effects prev st) = currentSlideIndex st"
  by (simp add: run_effects_def effect_currentSlide_def effect_content_def setCurrentSlide_def
      Let_def split: option.splits)

lemma run_effects_same: "run_effects st st = st"
  by (simp add: run_effects_def)

lemma addNewSlide_failure:
  "r = Fetch_threw \<or> (\<exists>resp. r = Fetch_response resp \<and> \<not> ok resp) \<Longrightarrow>
     addNewSlide r rendered st = Some st"
  by (auto simp: addNewSlide_def)

lemma addNewSlide_changed:
  "addNewSlide r rendered st \<noteq> Some st \<Longrightarrow> \<exists>resp. r = Fetch_response resp \<and> ok resp"
  by (auto simp: addNewSlide_def split: fetch_result.splits if_splits)

lemma addNewSlide_slide:
  "ok resp \<Longrightarrow> body resp = Slide_body s \<Longrightarrow>
     addNewSlide (Fetch_response resp) rendered st =
       Some (st\<lparr>slides := slides st @ [s], currentSlideIndex := int (length rendered)\<rparr>)"
  by (simp add: addNewSlide_def addSlide_def)

lemma addNewSlide_length:
  "addNewSlide r rendered st = Some st' \<Longrightarrow> length (slides st') \<le> Suc (length (slides st))"
  by (auto simp: addNewSlide_def addSlide_def
      split: fetch_result.splits if_splits response_body.splits)

lemma POST_status:
  "status (fst (POST env i request_body db)) \<in> {200, 401, 404, 500}"
  by (auto simp: POST_def split: option.splits)

lemma POST_ok_200:
  "ok (fst (POST env i request_body db)) \<longleftrightarrow> status (fst (POST env i request_body db)) = 200"
  using POST_status [of env i request_body db] by (auto simp: ok_def)

lemma POST_200_slide:
  "status (fst (POST env i request_body db)) = 200 \<Longrightarrow>
     \<exists>row. body (fst (POST env i request_body db)) = Slide_body row"
  by (auto simp: POST_def split: option.splits)

lemma fetch_POST_response:
  "fst (fetch_POST env projectId b db) = Fetch_response resp \<longleftrightarrow>
     network env = Delivered \<and> resp = fst (POST (server env) projectId (Some b) db)"
  by (auto simp: fetch_POST_def Let_def case_prod_beta split: network.splits)

lemma fetch_POST_threw:
  "fst (fetch_POST env projectId b db) = Fetch_threw \<longleftrightarrow> network env \<noteq> Delivered"
  by (auto simp: fetch_POST_def Let_def case_prod_beta split: network.splits)

text \<open>The route never answers ok without a slide, so every Add that settles has a result, and
  so has every run of events.\<close>

lemma addNewSlide_fetch_POST:
  "addNewSlide (fst (fetch_POST env projectId b db)) rendered st \<noteq> None"
proof (cases "fst (fetch_POST env projectId b db)")
  case Fetch_threw
  then show ?thesis by (simp add: addNewSlide_def)
next
  case (Fetch_response resp)
  then have resp: "resp = fst (POST (server env) projectId (Some b) db)"
    by (simp add: fetch_POST_response)
  show ?thesis
  proof (cases "ok resp")
    case True
    then obtain row where "body resp = Slide_body row"
      using POST_200_slide [of "server env" projectId "Some b" db] POST_ok_200 resp by auto
    with True Fetch_response show ?thesis by (simp add: addNewSlide_def)
  next
    case False
    with Fetch_response show ?thesis by (simp add: addNewSlide_def)
  qed
qed

lemma settle_add_unfold:
  "settle_add n env a =
     (if n < length (in_flight a) then
        (case addNewSlide
                (fst (fetch_POST env (request_project (in_flight a ! n))
                       (request_payload (in_flight a ! n)) (data_store a)))
                (rendered_slides (in_flight a ! n)) (ui a) of
           None \<Rightarrow> None
         | Some st' \<Rightarrow>
             Some \<lparr>ui = run_effects (ui a) st',
                   data_store = snd (fetch_POST env (request_project (in_flight a ! n))
                       (request_payload (in_flight a ! n)) (data_store a)),
                   in_flight = take n (in_flight a) @ drop (Suc n) (in_flight a)\<rparr>)
      else Some a)"
  by (simp add: settle_add_def Let_def case_prod_beta)

lemma settle_add_total: "settle_add n env a \<noteq> None"
  using addNewSlide_fetch_POST [of env "request_project (in_flight a ! n)"
      "request_payload (in_flight a ! n)" "data_store a" "rendered_slides (in_flight a ! n)" "ui a"]
  by (auto simp: settle_add_unfold split: option.splits)

lemma handle_event_total: "handle_event projectId e a \<noteq> None"
  by (cases e) (simp_all add: settle_add_total)

lemma run_events_total: "run_events projectId es a \<noteq> None"
proof (induction es arbitrary: a)
  case Nil
  then show ?case by simp
next
  case (Cons e es)
  obtain a' where "handle_event projectId e a = Some a'"
    using handle_event_total [of projectId e a] by auto
  with Cons.IH [of a'] show ?case by simp
qed

lemma click_add_ui: "ui (click_add projectId a) = ui a"
  and click_add_data_store: "data_store (click_add projectId a) = data_store a"
  by (simp_all add: click_add_def)

lemma click_add_rejected:
  "10 \<le> length (slides (ui a)) \<Longrightarrow> click_add projectId a = a"
  by (simp add: click_add_def add_disabled_def)

lemma click_duplicate_rejected:
  "10 \<le> length (slides (ui a)) \<Longrightarrow> click_duplicate env a = a"
  by (simp add: click_duplicate_def duplicate_disabled_def)

lemma full_rejected:
  "click_add (utf16 ''p1'') full_app = full_app
   \<and> click_duplicate sample_dup_env full_app = full_app"
proof -
  have "10 \<le> length (slides (ui full_app))"
    by (simp add: full_app_def full_editor_def)
  then show ?thesis
    by (simp add: click_add_rejected click_duplicate_rejected)
qed

lemma click_add_request:
  "length (slides (ui a)) < 10 \<Longrightarrow>
     in_flight (click_add projectId a) =
       in_flight a @ [\<lparr>request_project = projectId,
                        request_payload = new_slide_request (ui a),
                        rendered_slides = slides (ui a)\<rparr>]"
  by (simp add: click_add_def add_disabled_def)

text \<open>
  With 10 slides in the collection a click on Add or on Duplicate does nothing. When an Add
  settles before anything else is clicked, the collection stays within the cap, and an
  accepted Add appends the slide the route created: its number is the previous length plus
  one and its content is empty.
\<close>

lemma settled_click_cap:
  assumes "in_flight a = []" and "length (slides (ui a)) \<le> 10"
    and "settle_add 0 env (click_add projectId a) = Some a'"
  shows "length (slides (ui a')) \<le> 10"
proof (cases "add_disabled (ui a)")
  case True
  with assms show ?thesis by (simp add: click_add_def settle_add_unfold)
next
  case False
  then have lt: "length (slides (ui a)) < 10" by (simp add: add_disabled_def)
  from False assms(1,3) obtain st' where
    "addNewSlide (fst (fetch_POST env projectId (new_slide_request (ui a)) (data_store a)))
       (slides (ui a)) (ui a) = Some st'" and "ui a' = run_effects (ui a) st'"
    by (auto simp: click_add_def settle_add_unfold split: option.splits)
  then have "length (slides (ui a')) \<le> Suc (length (slides (ui a)))"
    using addNewSlide_length by (simp add: slides_run_effects)
  with lt show ?thesis by simp
qed

lemma new_slide_request_row:
  "typed_row env (slide_insert i (new_slide_request st)) =
     Some \<lparr>slide_id = generated_id env, project_id = i,
           slide_number = int (length (slides st)) + 1, content = [], title = None, tone = None,
           char_count = 0, created_at = generated_created_at env,
           updated_at = generated_updated_at env\<rparr>"
  by (simp add: typed_row_def slide_insert_def new_slide_request_def or_json_def truthy_def)

lemma POST_new_slide_request:
  assumes "status (fst (POST env i (Some (new_slide_request st)) db)) = 200"
  shows "body (fst (POST env i (Some (new_slide_request st)) db)) =
     Slide_body \<lparr>slide_id = generated_id env, project_id = i,
           slide_number = int (length (slides st)) + 1, content = [], title = None, tone = None,
           char_count = 0, created_at = generated_created_at env,
           updated_at = generated_updated_at env\<rparr>"
  using assms
  by (auto simp: POST_def insert_slide_def new_slide_request_row split: option.splits if_splits)

lemma settled_click_accepted:
  assumes "in_flight a = []" and "length (slides (ui a)) < 10"
    and "network env = Delivered"
    and "status (fst (POST (server env) projectId (Some (new_slide_request (ui a)))
            (data_store a))) = 200"
    and "settle_add 0 env (click_add projectId a) = Some a'"
  shows "\<exists>new. slides (ui a') = slides (ui a) @ [new]
           \<and> slide_number new = int (length (slides (ui a))) + 1
           \<and> content new = []
           \<and> currentSlideIndex (ui a') = int (length (slides (ui a)))"
proof -
  let ?resp = "fst (POST (server env) projectId (Some (new_slide_request (ui a))) (data_store a))"
  have r: "fst (fetch_POST env projectId (new_slide_request (ui a)) (data_store a)) =
      Fetch_response ?resp"
    using assms(3) by (simp add: fetch_POST_response)
  have okr: "ok ?resp" using assms(4) by (simp add: POST_ok_200)
  obtain new where new: "body ?resp = Slide_body new"
    "slide_number new = int (length (slides (ui a))) + 1" "content new = []"
    using POST_new_slide_request [OF assms(4)] by simp
  have "ui a' = run_effects (ui a)
      ((ui a)\<lparr>slides := slides (ui a) @ [new],
               currentSlideIndex := int (length (slides (ui a)))\<rparr>)"
    using assms(1,2,5) r addNewSlide_slide [OF okr new(1)]
    by (auto simp: click_add_def add_disabled_def settle_add_unfold)
  then show ?thesis
    using new(2,3) by (auto simp: slides_run_effects currentSlideIndex_run_effects)
qed

lemma nine_length: "length (slides (ui nine_app)) = 9"
  by (simp add: nine_app_def nine_editor_def)

lemma nine_clicks:
  "click_add (utf16 ''p1'') (click_add (utf16 ''p1'') nine_app) =
     nine_app\<lparr>in_flight :=
       [\<lparr>request_project = utf16 ''p1'', request_payload = new_slide_request nine_editor,
         rendered_slides = slides nine_editor\<rparr>,
        \<lparr>request_project = utf16 ''p1'', request_payload = new_slide_request nine_editor,
         rendered_slides = slides nine_editor\<rparr>]\<rparr>"
  using nine_length
  by (simp add: click_add_def add_disabled_def nine_app_def)

lemma nine_POST:
  assumes "requireAuth env = Some (utf16 ''alice'')" and "\<not> select_error env"
    and "\<not> insert_error env" and "carousel_projects db = carousel_projects sample_db"
  shows "\<exists>new. POST env (utf16 ''p1'') (Some (new_slide_request nine_editor)) db =
           (\<lparr>status = 200, body = Slide_body new\<rparr>, db\<lparr>slides_table := slides_table db @ [new]\<rparr>)"
  using assms
  by (simp add: POST_def select_project_def single_def sample_db_def insert_slide_def
      new_slide_request_row utf16_def)

text \<open>
  C1. The collection should never hold more than 10 slides, whatever Adds and Duplicates
  are issued. The Add handler has no test of the length of its own and waits for the route
  between the click and the append; the button is disabled only once the collection has
  been rendered with 10 slides. From a collection of 9 slides, two clicks on Add before
  the first response both pass the button, and when both requests have settled the
  collection holds 11 slides.
\<close>

theorem overlapping_adds_exceed_cap:
  "length (slides (ui nine_app)) = 9
   \<and> map_option (\<lambda>a. length (slides (ui a)))
        (run_events (utf16 ''p1'')
           [Click_add, Click_add, Settle_add 0 sample_add_env, Settle_add 0 later_add_env]
           nine_app) = Some 11"
proof -
  let ?rq = "\<lparr>request_project = utf16 ''p1'', request_payload = new_slide_request nine_editor,
         rendered_slides = slides nine_editor\<rparr>"
  obtain new1 where p1: "POST sample_server (utf16 ''p1'') (Some (new_slide_request nine_editor))
      sample_db = (\<lparr>status = 200, body = Slide_body new1\<rparr>,
        sample_db\<lparr>slides_table := slides_table sample_db @ [new1]\<rparr>)"
    using nine_POST [of sample_server sample_db] by (auto simp: sample_server_def)
  let ?db1 = "sample_db\<lparr>slides_table := slides_table sample_db @ [new1]\<rparr>"
  obtain new2 where p2: "POST (server later_add_env) (utf16 ''p1'')
      (Some (new_slide_request nine_editor)) ?db1 = (\<lparr>status = 200, body = Slide_body new2\<rparr>,
        ?db1\<lparr>slides_table := slides_table ?db1 @ [new2]\<rparr>)"
    using nine_POST [of "server later_add_env" ?db1]
    by (auto simp: later_add_env_def sample_server_def)
  have s1: "settle_add 0 sample_add_env (nine_app\<lparr>in_flight := [?rq, ?rq]\<rparr>) =
      Some \<lparr>ui = run_effects nine_editor
                (nine_editor\<lparr>slides := slides nine_editor @ [new1], currentSlideIndex := 9\<rparr>),
            data_store = ?db1, in_flight = [?rq]\<rparr>"
    using p1
    by (simp add: settle_add_unfold nine_app_def fetch_POST_def sample_add_env_def
        addNewSlide_def ok_def addSlide_def nine_editor_def)
  have s2: "\<exists>a. settle_add 0 later_add_env
      \<lparr>ui = run_effects nine_editor
                (nine_editor\<lparr>slides := slides nine_editor @ [new1], currentSlideIndex := 9\<rparr>),
       data_store = ?db1, in_flight = [?rq]\<rparr> = Some a
      \<and> slides (ui a) = slides nine_editor @ [new1, new2]"
    using p2
    by (simp add: settle_add_unfold fetch_POST_def later_add_env_def
        addNewSlide_def ok_def addSlide_def slides_run_effects)
  from s1 s2 nine_clicks nine_length show ?thesis
    by (auto simp: nine_app_def nine_editor_def)
qed

lemma settle_add_failure:
  assumes "n < length (in_flight a)"
    and "network env \<noteq> Delivered
         \<or> status (fst (POST (server env) (request_project (in_flight a ! n))
               (Some (request_payload (in_flight a ! n))) (data_store a))) \<noteq> 200"
  shows "\<exists>a'. settle_add n env a = Some a' \<and> ui a' = ui a"
proof -
  let ?rq = "in_flight a ! n"
  let ?r = "fst (fetch_POST env (request_project ?rq) (request_payload ?rq) (data_store a))"
  have "?r = Fetch_threw \<or> (\<exists>resp. ?r = Fetch_response resp \<and> \<not> ok resp)"
  proof (cases "network env = Delivered")
    case True
    with assms(2) have "\<not> ok (fst (POST (server env) (request_project ?rq)
        (Some (request_payload ?rq)) (data_store a)))"
      by (simp add: POST_ok_200)
    with True show ?thesis by (simp add: fetch_POST_response)
  next
    case False
    then show ?thesis by (simp add: fetch_POST_threw)
  qed
  then have "addNewSlide ?r (rendered_slides ?rq) (ui a) = Some (ui a)"
    by (rule addNewSlide_failure)
  with assms(1) show ?thesis
    by (simp add: settle_add_unfold run_effects_same)
qed

lemma mallory_POST:
  "POST mallory_server (utf16 ''p1'') (Some (new_slide_request sample_editor)) sample_db =
     (\<lparr>status = 404, body = Error_body ''Project not found''\<rparr>, sample_db)"
  by (simp add: POST_def mallory_server_def sample_server_def select_project_def sample_db_def
      single_def utf16_def)

lemma sample_POST:
  "POST sample_server (utf16 ''p1'') (Some (new_slide_request sample_editor)) sample_db =
     (sample_response, sample_db\<lparr>slides_table := slides_table sample_db @ [created_slide]\<rparr>)"
  by (simp add: POST_def sample_server_def select_project_def sample_db_def single_def
      insert_slide_def new_slide_request_row sample_editor_def sample_response_def
      created_slide_def utf16_def)

lemma sample_click:
  "click_add (utf16 ''p1'') sample_app =
     sample_app\<lparr>in_flight := [\<lparr>request_project = utf16 ''p1'',
                                  request_payload = new_slide_request sample_editor,
                                  rendered_slides = slides sample_editor\<rparr>]\<rparr>"
  by (simp add: click_add_def add_disabled_def sample_app_def sample_editor_def)

text \<open>
  C3. A click on Add sends the request built from the state as rendered and leaves the
  editor and the data store as they are; the local state changes only when the request
  has settled. When \<open>fetch\<close> throws or the response is not ok, the editor state stays
  exactly as it was; the editor state changes only on an ok response; an ok response with
  a slide appends that slide and moves the active index to the length of the collection
  as rendered. With the route behind the request: when the request or the response is
  lost, or the route answers with another status than 200, the editor state is exactly as
  it was.
\<close>

theorem add_only_on_success:
  "ui (click_add projectId a) = ui a \<and> data_store (click_add projectId a) = data_store a
   \<and> (\<not> add_disabled (ui a) \<longrightarrow>
        in_flight (click_add projectId a) =
          in_flight a @ [\<lparr>request_project = projectId,
                           request_payload = new_slide_request (ui a),
                           rendered_slides = slides (ui a)\<rparr>])
   \<and> ((r = Fetch_threw \<or> (\<exists>resp. r = Fetch_response resp \<and> \<not> ok resp)) \<longrightarrow>
        addNewSlide r rendered st = Some st)
   \<and> (addNewSlide r' rendered' st' \<noteq> Some st' \<longrightarrow>
        (\<exists>resp. r' = Fetch_response resp \<and> ok resp))
   \<and> (ok resp'' \<and> body resp'' = Slide_body s \<longrightarrow>
        addNewSlide (Fetch_response resp'') rendered'' st'' =
          Some (st''\<lparr>slides := slides st'' @ [s],
                     currentSlideIndex := int (length rendered'')\<rparr>))
   \<and> (n < length (in_flight b)
        \<and> (network env \<noteq> Delivered
            \<or> status (fst (POST (server env) (request_project (in_flight b ! n))
                  (Some (request_payload (in_flight b ! n))) (data_store b))) \<noteq> 200) \<longrightarrow>
        (\<exists>b'. settle_add n env b = Some b' \<and> ui b' = ui b))"
proof (intro conjI impI)
  show "ui (click_add projectId a) = ui a"
    and "data_store (click_add projectId a) = data_store a"
    by (simp_all add: click_add_def)
next
  assume "\<not> add_disabled (ui a)"
  then show "in_flight (click_add projectId a) =
          in_flight a @ [\<lparr>request_project = projectId,
                           request_payload = new_slide_request (ui a),
                           rendered_slides = slides (ui a)\<rparr>]"
    by (simp add: click_add_def)
next
  assume "r = Fetch_threw \<or> (\<exists>resp. r = Fetch_response resp \<and> \<not> ok resp)"
  then show "addNewSlide r rendered st = Some st" by (rule addNewSlide_failure)
next
  assume "addNewSlide r' rendered' st' \<noteq> Some st'"
  then show "\<exists>resp. r' = Fetch_response resp \<and> ok resp" by (rule addNewSlide_changed)
next
  assume "ok resp'' \<and> body resp'' = Slide_body s"
  then show "addNewSlide (Fetch_response resp'') rendered'' st'' =
          Some (st''\<lparr>slides := slides st'' @ [s],
                     currentSlideIndex := int (length rendered'')\<rparr>)"
    by (simp add: addNewSlide_slide)
next
  assume "n < length (in_flight b)
        \<and> (network env \<noteq> Delivered
            \<or> status (fst (POST (server env) (request_project (in_flight b ! n))
                  (Some (request_payload (in_flight b ! n))) (data_store b))) \<noteq> 200)"
  then show "\<exists>b'. settle_add n env b = Some b' \<and> ui b' = ui b"
    using settle_add_failure [of n b env] by blast
qed

theorem add_only_on_success_witness:
  "ui (click_add (utf16 ''p1'') sample_app) = sample_editor
   \<and> data_store (click_add (utf16 ''p1'') sample_app) = sample_db
   \<and> in_flight (click_add (utf16 ''p1'') sample_app) =
        [\<lparr>request_project = utf16 ''p1'', request_payload = new_slide_request sample_editor,
          rendered_slides = slides sample_editor\<rparr>]
   \<and> addNewSlide Fetch_threw (slides sample_editor) sample_editor = Some sample_editor
   \<and> addNewSlide (Fetch_response sample_response) (slides sample_editor) sample_editor
        \<noteq> Some sample_editor
   \<and> addNewSlide (Fetch_response sample_response) (slides sample_editor) sample_editor =
        Some (sample_editor\<lparr>slides := [sample_slide, second_slide, created_slide],
                           currentSlideIndex := 2\<rparr>)
   \<and> network offline_add_env \<noteq> Delivered
   \<and> map_option ui (settle_add 0 offline_add_env (click_add (utf16 ''p1'') sample_app)) =
        Some sample_editor
   \<and> status (fst (POST (server mallory_add_env) (utf16 ''p1'')
         (Some (new_slide_request sample_editor)) sample_db)) = 404
   \<and> map_option ui (settle_add 0 mallory_add_env (click_add (utf16 ''p1'') sample_app)) =
        Some sample_editor"
proof -
  let ?clicked = "click_add (utf16 ''p1'') sample_app"
  have enabled: "\<not> add_disabled (ui sample_app)"
    by (simp add: add_disabled_def sample_app_def sample_editor_def)
  have okr: "ok sample_response \<and> body sample_response = Slide_body created_slide"
    by (simp add: sample_response_def ok_def)
  have off: "network offline_add_env \<noteq> Delivered"
    by (simp add: offline_add_env_def)
  have nf: "status (fst (POST (server mallory_add_env) (utf16 ''p1'')
         (Some (new_slide_request sample_editor)) sample_db)) = 404"
    by (simp add: mallory_add_env_def mallory_POST)
  have rq: "0 < length (in_flight ?clicked)"
    "request_project (in_flight ?clicked ! 0) = utf16 ''p1''"
    "request_payload (in_flight ?clicked ! 0) = new_slide_request sample_editor"
    "data_store ?clicked = sample_db" "ui ?clicked = sample_editor"
    by (simp_all add: sample_click) (simp_all add: sample_app_def)
  have fields: "ui sample_app = sample_editor" "data_store sample_app = sample_db"
    "in_flight sample_app = []" "slides sample_editor = [sample_slide, second_slide]"
    by (simp_all add: sample_app_def sample_editor_def)
  note t1 = add_only_on_success [where projectId = "utf16 ''p1''" and a = sample_app
      and r = Fetch_threw and rendered = "slides sample_editor" and st = sample_editor
      and r' = "Fetch_response sample_response" and rendered' = "slides sample_editor"
      and st' = sample_editor and resp'' = sample_response and s = created_slide
      and rendered'' = "slides sample_editor" and st'' = sample_editor
      and n = 0 and b = ?clicked and env = offline_add_env]
  note t2 = add_only_on_success [where n = 0 and b = ?clicked and env = mallory_add_env]
  have changed: "addNewSlide (Fetch_response sample_response) (slides sample_editor)
      sample_editor \<noteq> Some sample_editor"
  proof
    assume "addNewSlide (Fetch_response sample_response) (slides sample_editor)
      sample_editor = Some sample_editor"
    then have "slides (the (addNewSlide (Fetch_response sample_response)
        (slides sample_editor) sample_editor)) = slides sample_editor"
      by simp
    then show False
      using okr by (simp add: addNewSlide_def addSlide_def)
  qed
  from t1 t2 enabled okr off nf rq changed show ?thesis
    by (auto simp: fields)
qed

text \<open>
  With the active index at a position of the collection, the hook on the index and the
  collection makes the current slide the slide at that position.
\<close>

lemma effect_currentSlide_sync:
  assumes "0 \<le> currentSlideIndex st" and "currentSlideIndex st < int (length (slides st))"
  shows "currentSlide (effect_currentSlide st) =
           slide_at (slides (effect_currentSlide st)) (currentSlideIndex (effect_currentSlide st))"
  using assms by (auto simp: effect_currentSlide_def setCurrentSlide_def)




section \<open>Access to the create-slide endpoint\<close>

lemma not_owns_select:
  "\<not> owns db userId i \<Longrightarrow> select_project env db i userId = None"
proof -
  assume "\<not> owns db userId i"
  then have "filter (\<lambda>p. project_row_id p = i \<and> user_id p = userId) (carousel_projects db) = []"
    by (auto simp: owns_def filter_empty_conv)
  then show ?thesis by (simp add: select_project_def single_def)
qed

lemma select_owns:
  "select_project env db i userId = Some p \<Longrightarrow> owns db userId i"
  using not_owns_select by fastforce

text \<open>
  C5, as the route has it. Every request without a session gets the status 401, whatever
  its body. Every request with a session and a readable body whose caller does not own the
  project gets the one response with status 404 and the text "Project not found", whether
  the project exists or not. The tables change only when the caller owns the project.
\<close>

theorem create_slide_access:
  "(requireAuth env = None \<longrightarrow>
      POST env i request_body db =
        (\<lparr>status = 401, body = Error_body ''Authentication required''\<rparr>, db))
   \<and> (requireAuth env' = Some userId \<and> \<not> owns db' userId i' \<longrightarrow>
        POST env' i' (Some b) db' =
          (\<lparr>status = 404, body = Error_body ''Project not found''\<rparr>, db'))
   \<and> (snd (POST env'' i'' request_body'' db'') \<noteq> db'' \<longrightarrow>
        (\<exists>userId. requireAuth env'' = Some userId \<and> owns db'' userId i''))"
proof (intro conjI impI)
  assume "requireAuth env = None"
  then show "POST env i request_body db =
        (\<lparr>status = 401, body = Error_body ''Authentication required''\<rparr>, db)"
    by (simp add: POST_def)
next
  assume "requireAuth env' = Some userId \<and> \<not> owns db' userId i'"
  then show "POST env' i' (Some b) db' =
      (\<lparr>status = 404, body = Error_body ''Project not found''\<rparr>, db')"
    by (simp add: POST_def not_owns_select)
next
  assume "snd (POST env'' i'' request_body'' db'') \<noteq> db''"
  then show "\<exists>userId. requireAuth env'' = Some userId \<and> owns db'' userId i''"
    by (auto simp: POST_def split: option.splits dest: select_owns)
qed

theorem create_slide_access_witness:
  "requireAuth anonymous_server = None
   \<and> POST anonymous_server (utf16 ''p1'') (Some (new_slide_request sample_editor)) sample_db =
       (\<lparr>status = 401, body = Error_body ''Authentication required''\<rparr>, sample_db)
   \<and> requireAuth mallory_server = Some (utf16 ''mallory'')
   \<and> \<not> owns sample_db (utf16 ''mallory'') (utf16 ''p1'')
   \<and> \<not> owns sample_db (utf16 ''mallory'') (utf16 ''p9'')
   \<and> POST mallory_server (utf16 ''p1'') (Some (new_slide_request sample_editor)) sample_db =
       (\<lparr>status = 404, body = Error_body ''Project not found''\<rparr>, sample_db)
   \<and> POST mallory_server (utf16 ''p9'') (Some (new_slide_request sample_editor)) sample_db =
       (\<lparr>status = 404, body = Error_body ''Project not found''\<rparr>, sample_db)
   \<and> snd (POST sample_server (utf16 ''p1'') (Some (new_slide_request sample_editor)) sample_db)
       \<noteq> sample_db
   \<and> requireAuth sample_server = Some (utf16 ''alice'')
   \<and> owns sample_db (utf16 ''alice'') (utf16 ''p1'')"
proof -
  have h: "requireAuth anonymous_server = None"
    "requireAuth mallory_server = Some (utf16 ''mallory'')"
    "\<not> owns sample_db (utf16 ''mallory'') (utf16 ''p1'')"
    "\<not> owns sample_db (utf16 ''mallory'') (utf16 ''p9'')"
    "requireAuth sample_server = Some (utf16 ''alice'')"
    by (simp_all add: anonymous_server_def mallory_server_def sample_server_def owns_def
        sample_db_def utf16_def)
  have ins: "snd (POST sample_server (utf16 ''p1'') (Some (new_slide_request sample_editor))
      sample_db) \<noteq> sample_db"
  proof
    assume "snd (POST sample_server (utf16 ''p1'') (Some (new_slide_request sample_editor))
      sample_db) = sample_db"
    then have "slides_table (snd (POST sample_server (utf16 ''p1'')
        (Some (new_slide_request sample_editor)) sample_db)) = slides_table sample_db"
      by simp
    then show False by (simp add: sample_POST)
  qed
  from create_slide_access [where env = anonymous_server and i = "utf16 ''p1''"
      and request_body = "Some (new_slide_request sample_editor)" and db = sample_db
      and env' = mallory_server and userId = "utf16 ''mallory''" and i' = "utf16 ''p1''"
      and db' = sample_db and b = "new_slide_request sample_editor"
      and env'' = sample_server and i'' = "utf16 ''p1''"
      and request_body'' = "Some (new_slide_request sample_editor)" and db'' = sample_db]
    create_slide_access [where env' = mallory_server and userId = "utf16 ''mallory''"
      and i' = "utf16 ''p9''" and db' = sample_db and b = "new_slide_request sample_editor"]
    h ins
  show ?thesis by auto
qed

text \<open>
  C5 as stated fails for a caller with a session who does not own the project and whose
  request body cannot be read: the body is read before the ownership query, and the
  answer is the status 500.
\<close>

theorem create_slide_not_found_counterexample:
  "requireAuth mallory_server = Some (utf16 ''mallory'')
   \<and> \<not> owns sample_db (utf16 ''mallory'') (utf16 ''p1'')
   \<and> status (fst (POST mallory_server (utf16 ''p1'') None sample_db)) = 500
   \<and> status (fst (POST mallory_server (utf16 ''p1'') None sample_db)) \<noteq> 404"
  by (simp add: POST_def mallory_server_def sample_server_def owns_def sample_db_def utf16_def)

section \<open>The character count is the length of the content\<close>

lemma slide_insert_string:
  "body_content b = Some (Json_string s) \<Longrightarrow>
     row_content (slide_insert i b) = Json_string s
     \<and> row_char_count (slide_insert i b) = Some (Json_number (int (length s)))"
  by (auto simp: slide_insert_def or_json_def truthy_def)

lemma slide_insert_missing:
  "body_content b = None \<Longrightarrow>
     row_content (slide_insert i b) = Json_string []
     \<and> row_char_count (slide_insert i b) = Some (Json_number 0)"
  by (simp add: slide_insert_def or_json_def)

lemma as_text_Some: "as_text v = Some s \<longleftrightarrow> v = Json_string s"
  by (cases v) auto

lemma as_number_Some: "as_number v = Some n \<longleftrightarrow> v = Json_number n"
  by (cases v) auto

lemma typed_row_SomeD:
  assumes "typed_row env r = Some s"
  shows "as_text (row_content r) = Some (content s)"
    and "\<exists>cc. row_char_count r = Some cc \<and> as_number cc = Some (char_count s)"
  using assms by (simp_all add: typed_row_def split: option.splits) auto

lemma typed_row_inv:
  assumes "typed_row env (slide_insert i b) = Some s"
  shows "slide_inv s"
proof -
  from typed_row_SomeD [OF assms]
  have str: "row_content (slide_insert i b) = Json_string (content s)"
    and c: "row_char_count (slide_insert i b) = Some (Json_number (char_count s))"
    by (auto simp: as_text_Some as_number_Some)
  from str have "or_json (body_content b) (Json_string []) = Json_string (content s)"
    by (simp add: slide_insert_def)
  then have "row_char_count (slide_insert i b) =
      Some (Json_number (int (length (content s))))"
    by (simp add: slide_insert_def)
  with c show ?thesis by (simp add: slide_inv_def)
qed

lemma well_typed_typed_row:
  "well_typed r \<longleftrightarrow> typed_row env r \<noteq> None"
  by (auto simp: well_typed_def typed_row_def split: option.splits)

lemma insert_slide_inv:
  assumes "well_typed (slide_insert i b)"
    and "insert_slide env (slide_insert i b) db = Some (row, db')"
  shows "slide_inv row \<and> slides_table db' = slides_table db @ [row]
         \<and> carousel_projects db' = carousel_projects db"
proof -
  from assms(1) obtain s where s: "typed_row env (slide_insert i b) = Some s"
    using well_typed_typed_row [of "slide_insert i b" env] by auto
  from assms(2) have ne: "\<not> insert_error env"
    by (simp add: insert_slide_def split: if_splits)
  from assms(2) ne s have "row = s" and "db' = db\<lparr>slides_table := slides_table db @ [s]\<rparr>"
    by (auto simp: insert_slide_def)
  with typed_row_inv [OF s] show ?thesis by simp
qed

lemma POST_inserted:
  "POST env i (Some b) db =
     (case requireAuth env of
        None \<Rightarrow> (\<lparr>status = 401, body = Error_body ''Authentication required''\<rparr>, db)
      | Some userId \<Rightarrow>
          (case select_project env db i userId of
             None \<Rightarrow> (\<lparr>status = 404, body = Error_body ''Project not found''\<rparr>, db)
           | Some project \<Rightarrow>
               (case insert_slide env (slide_insert i b) db of
                  None \<Rightarrow> (\<lparr>status = 500, body = Error_body ''Failed to create slide''\<rparr>, db)
                | Some p \<Rightarrow> (\<lparr>status = 200, body = Slide_body (fst p)\<rparr>, snd p))))"
  by (simp add: POST_def case_prod_beta split: option.splits)

lemma POST_slide_inv:
  assumes "well_typed (slide_insert i b)"
    and "body (fst (POST env i (Some b) db)) = Slide_body row"
  shows "slide_inv row"
proof -
  from assms(2) obtain p where p: "insert_slide env (slide_insert i b) db = Some p"
    and row: "row = fst p"
    by (simp add: POST_inserted split: option.splits)
  from insert_slide_inv [OF assms(1), of env db "fst p" "snd p"] p row show ?thesis
    by simp
qed

lemma POST_db_inv:
  assumes "well_typed (slide_insert i b)" and "db_inv db"
  shows "db_inv (snd (POST env i (Some b) db))"
proof (cases "snd (POST env i (Some b) db) = db")
  case True
  with assms(2) show ?thesis by simp
next
  case False
  then obtain p where p: "insert_slide env (slide_insert i b) db = Some p"
    and db': "snd (POST env i (Some b) db) = snd p"
    by (simp add: POST_inserted split: option.splits)
  from insert_slide_inv [OF assms(1), of env db "fst p" "snd p"] p
  have "slide_inv (fst p)" and "slides_table (snd p) = slides_table db @ [fst p]"
    by simp_all
  with assms(2) show ?thesis by (simp add: db' db_inv_def)
qed

lemma fetch_POST_db_inv:
  "well_typed (slide_insert i b) \<Longrightarrow> db_inv db \<Longrightarrow> db_inv (snd (fetch_POST env i b db))"
  by (simp add: fetch_POST_def POST_db_inv case_prod_beta split: network.splits)

lemma fetch_POST_slide_inv:
  "well_typed (slide_insert i b) \<Longrightarrow> fst (fetch_POST env i b db) = Fetch_response resp \<Longrightarrow>
     body resp = Slide_body s \<Longrightarrow> slide_inv s"
  using POST_slide_inv by (auto simp: fetch_POST_response)

lemma new_slide_request_well_typed:
  "well_typed (slide_insert i (new_slide_request st))"
  by (simp add: well_typed_typed_row [of _ undefined] new_slide_request_row)

lemma slides_handleContentChange:
  "slides (handleContentChange env v st) =
     (case currentSlide st of
        None \<Rightarrow> slides st
      | Some cs \<Rightarrow>
          map (\<lambda>s. if slide_id s = slide_id cs
                    then cs\<lparr>content := v, char_count := int (length v), updated_at := now env\<rparr>
                    else s) (slides st))"
  by (simp add: handleContentChange_def Let_def updateSlide_def setAutoSaving_def
      setLastSaved_def split: option.splits)

lemma currentSlide_handleContentChange:
  "currentSlide (handleContentChange env v st) = currentSlide st"
  by (simp add: handleContentChange_def Let_def updateSlide_def setAutoSaving_def
      setLastSaved_def split: option.splits)

lemma handleContentChange_writes:
  "s \<in> set (slides (handleContentChange env v st)) \<Longrightarrow>
     s \<in> set (slides st) \<or> (content s = v \<and> char_count s = int (length v))"
  by (auto simp: slides_handleContentChange split: option.splits if_splits)

lemma editor_inv_handleContentChange:
  "editor_inv st \<Longrightarrow> editor_inv (handleContentChange env v st)"
  by (auto simp: editor_inv_def slides_handleContentChange currentSlide_handleContentChange
      list_all_iff slide_inv_def split: option.splits)

lemma editor_inv_handleFormatText:
  "editor_inv st \<Longrightarrow> editor_inv (fst (handleFormatText env ta format val st))"
  by (simp add: handleFormatText_def editor_inv_handleContentChange case_prod_beta Let_def
      split: option.splits)

lemma editor_inv_handleApplyStyleSuggestion:
  "editor_inv st \<Longrightarrow> editor_inv (handleApplyStyleSuggestion env ta sg st)"
  by (simp add: handleApplyStyleSuggestion_def editor_inv_handleContentChange Let_def
      split: option.splits)

lemma editor_inv_duplicateSlide:
  "editor_inv st \<Longrightarrow> editor_inv (duplicateSlide env st)"
  by (auto simp: duplicateSlide_def editor_inv_def addSlide_def slide_inv_def Let_def
      split: option.splits)

lemma editor_inv_deleteCurrentSlide:
  "editor_inv st \<Longrightarrow> editor_inv (deleteCurrentSlide st)"
  by (auto simp: deleteCurrentSlide_def editor_inv_def deleteSlide_def list_all_iff
      split: option.splits)

lemma editor_inv_addNewSlide:
  assumes "editor_inv st" and "addNewSlide r rendered st = Some st'"
    and "\<And>resp s. r = Fetch_response resp \<Longrightarrow> body resp = Slide_body s \<Longrightarrow> slide_inv s"
  shows "editor_inv st'"
  using assms
  by (auto simp: addNewSlide_def editor_inv_def addSlide_def
      split: fetch_result.splits response_body.splits option.splits if_splits)

lemma editor_inv_run_effects:
  "editor_inv st \<Longrightarrow> editor_inv (run_effects prev st)"
  by (auto simp: run_effects_def effect_currentSlide_def effect_content_def setCurrentSlide_def
      editor_inv_def slide_at_def list_all_length Let_def split: option.splits)

lemma click_add_inv: "app_inv a \<Longrightarrow> app_inv (click_add projectId a)"
  by (simp add: app_inv_def click_add_def new_slide_request_well_typed)

lemma click_duplicate_inv: "app_inv a \<Longrightarrow> app_inv (click_duplicate env a)"
  by (simp add: app_inv_def click_duplicate_def editor_inv_run_effects
      editor_inv_duplicateSlide)

lemma list_all_remove_nth:
  "list_all P xs \<Longrightarrow> list_all P (take n xs @ drop (Suc n) xs)"
  by (auto simp: list_all_iff dest: in_set_takeD in_set_dropD)

lemma settle_add_inv:
  assumes "app_inv a" and "settle_add n env a = Some a'"
  shows "app_inv a'"
proof (cases "n < length (in_flight a)")
  case False
  with assms show ?thesis by (simp add: settle_add_unfold)
next
  case True
  let ?rq = "in_flight a ! n"
  let ?f = "fetch_POST env (request_project ?rq) (request_payload ?rq) (data_store a)"
  have wt: "well_typed (slide_insert (request_project ?rq) (request_payload ?rq))"
    using assms(1) True by (simp add: app_inv_def list_all_length)
  from assms(2) True obtain st' where
    st': "addNewSlide (fst ?f) (rendered_slides ?rq) (ui a) = Some st'" and
    a': "a' = \<lparr>ui = run_effects (ui a) st', data_store = snd ?f,
              in_flight = take n (in_flight a) @ drop (Suc n) (in_flight a)\<rparr>"
    by (auto simp: settle_add_unfold split: option.splits)
  have "editor_inv st'"
    using assms(1) st' fetch_POST_slide_inv [OF wt]
    by (intro editor_inv_addNewSlide [of "ui a" "fst ?f" "rendered_slides ?rq" st'])
       (auto simp: app_inv_def)
  moreover have "db_inv (snd ?f)"
    using assms(1) wt by (simp add: app_inv_def fetch_POST_db_inv)
  moreover have "list_all (\<lambda>rq. well_typed (slide_insert (request_project rq)
      (request_payload rq))) (take n (in_flight a) @ drop (Suc n) (in_flight a))"
    using assms(1) by (intro list_all_remove_nth) (simp add: app_inv_def)
  ultimately show ?thesis
    unfolding a' app_inv_def by (simp add: editor_inv_run_effects del: list_all_append)
qed

lemma handle_event_inv:
  "app_inv a \<Longrightarrow> handle_event projectId e a = Some a' \<Longrightarrow> app_inv a'"
  by (cases e) (auto simp: click_add_inv click_duplicate_inv settle_add_inv)

lemma run_events_inv:
  "app_inv a \<Longrightarrow> run_events projectId es a = Some a' \<Longrightarrow> app_inv a'"
proof (induction es arbitrary: a)
  case Nil
  then show ?case by simp
next
  case (Cons e es)
  then show ?case
    by (auto split: option.splits dest: handle_event_inv)
qed

text \<open>
  C6, as the code has it. Whatever sets the content of a slide to a string sets its
  \<open>char_count\<close> to the length of that string. For a request whose content is a string or
  is missing, the object the route inserts has that string (the empty string when it is
  missing) as content and its length as \<open>char_count\<close>; a row the data store takes as it is
  has \<open>char_count = length content\<close>, and the route keeps that true of the whole table.
  Every slide a content change writes to the collection carries the new content and its
  length. Every operation of the editor (content change, formatting, style suggestion,
  duplicate, delete) keeps \<open>char_count = length content\<close> true of every slide in the
  collection and of the current slide, and so does every run of clicks on Add and
  Duplicate with the Adds settling in any order, which always has a result.
\<close>

theorem char_count_invariant:
  "(body_content b = Some (Json_string s) \<longrightarrow>
      row_content (slide_insert i b) = Json_string s
      \<and> row_char_count (slide_insert i b) = Some (Json_number (int (length s))))
   \<and> (body_content b' = None \<longrightarrow>
        row_content (slide_insert i' b') = Json_string []
        \<and> row_char_count (slide_insert i' b') = Some (Json_number 0))
   \<and> (well_typed (slide_insert i'' b'')
        \<and> body (fst (POST env i'' (Some b'') db)) = Slide_body row \<longrightarrow>
        char_count row = int (length (content row)))
   \<and> (well_typed (slide_insert i'' b'') \<and> db_inv db \<longrightarrow>
        db_inv (snd (POST env i'' (Some b'') db)))
   \<and> (\<forall>s \<in> set (slides (handleContentChange senv v st)).
        s \<in> set (slides st) \<or> (content s = v \<and> char_count s = int (length v)))
   \<and> (editor_inv st \<longrightarrow>
        editor_inv (handleContentChange senv v st)
        \<and> editor_inv (fst (handleFormatText senv ta format val st))
        \<and> editor_inv (handleApplyStyleSuggestion senv ta sg st)
        \<and> editor_inv (duplicateSlide denv st)
        \<and> editor_inv (deleteCurrentSlide st))
   \<and> (app_inv a \<longrightarrow>
        (\<exists>a'. run_events projectId es a = Some a' \<and> app_inv a'))"
proof (intro conjI impI ballI)
  assume "body_content b = Some (Json_string s)"
  then show "row_content (slide_insert i b) = Json_string s"
    and "row_char_count (slide_insert i b) = Some (Json_number (int (length s)))"
    by (simp_all add: slide_insert_string)
next
  assume "body_content b' = None"
  then show "row_content (slide_insert i' b') = Json_string []"
    and "row_char_count (slide_insert i' b') = Some (Json_number 0)"
    by (simp_all add: slide_insert_missing)
next
  assume "well_typed (slide_insert i'' b'')
        \<and> body (fst (POST env i'' (Some b'') db)) = Slide_body row"
  then show "char_count row = int (length (content row))"
    using POST_slide_inv [of i'' b'' env db row] by (simp add: slide_inv_def)
next
  assume "well_typed (slide_insert i'' b'') \<and> db_inv db"
  then show "db_inv (snd (POST env i'' (Some b'') db))"
    by (simp add: POST_db_inv)
next
  fix s assume "s \<in> set (slides (handleContentChange senv v st))"
  then show "s \<in> set (slides st) \<or> (content s = v \<and> char_count s = int (length v))"
    by (rule handleContentChange_writes)
next
  assume "editor_inv st"
  then show "editor_inv (handleContentChange senv v st)"
    and "editor_inv (fst (handleFormatText senv ta format val st))"
    and "editor_inv (handleApplyStyleSuggestion senv ta sg st)"
    and "editor_inv (duplicateSlide denv st)"
    and "editor_inv (deleteCurrentSlide st)"
    by (simp_all add: editor_inv_handleContentChange editor_inv_handleFormatText
        editor_inv_handleApplyStyleSuggestion editor_inv_duplicateSlide
        editor_inv_deleteCurrentSlide)
next
  assume inv: "app_inv a"
  obtain a' where a': "run_events projectId es a = Some a'"
    using run_events_total [of projectId es a] by auto
  with inv have "app_inv a'" by (rule run_events_inv)
  with a' show "\<exists>a'. run_events projectId es a = Some a' \<and> app_inv a'" by blast
qed

theorem char_count_invariant_witness:
  "body_content text_body = Some (Json_string (utf16 ''hi''))
   \<and> row_content (slide_insert (utf16 ''p1'') text_body) = Json_string (utf16 ''hi'')
   \<and> row_char_count (slide_insert (utf16 ''p1'') text_body) = Some (Json_number 2)
   \<and> body_content empty_body = None
   \<and> row_content (slide_insert (utf16 ''p1'') empty_body) = Json_string []
   \<and> row_char_count (slide_insert (utf16 ''p1'') empty_body) = Some (Json_number 0)
   \<and> well_typed (slide_insert (utf16 ''p1'') (new_slide_request sample_editor))
   \<and> body (fst (POST sample_server (utf16 ''p1'') (Some (new_slide_request sample_editor))
        sample_db)) = Slide_body created_slide
   \<and> char_count created_slide = int (length (content created_slide))
   \<and> db_inv sample_db
   \<and> db_inv (snd (POST sample_server (utf16 ''p1'') (Some (new_slide_request sample_editor))
        sample_db))
   \<and> slides (handleContentChange sample_save_env (utf16 ''hi'') sample_editor) =
        [sample_slide\<lparr>content := utf16 ''hi'', char_count := 2, updated_at := utf16 ''t4''\<rparr>,
         second_slide]
   \<and> content (hd (slides (handleContentChange sample_save_env (utf16 ''hi'') sample_editor))) =
        utf16 ''hi''
   \<and> char_count (hd (slides (handleContentChange sample_save_env (utf16 ''hi'') sample_editor))) =
        int (length (utf16 ''hi''))
   \<and> editor_inv sample_editor
   \<and> editor_inv (handleContentChange sample_save_env (utf16 ''hi'') sample_editor)
   \<and> editor_inv (duplicateSlide sample_dup_env sample_editor)
   \<and> app_inv sample_app
   \<and> map_option app_inv
        (run_events (utf16 ''p1'')
           [Click_add, Click_duplicate sample_dup_env, Settle_add 0 sample_add_env]
           sample_app) = Some True"
proof -
  have h0: "body_content text_body = Some (Json_string (utf16 ''hi''))"
    "body_content empty_body = None"
    by (simp_all add: text_body_def empty_body_def)
  have h1: "body (fst (POST sample_server (utf16 ''p1'') (Some (new_slide_request sample_editor))
      sample_db)) = Slide_body created_slide"
    by (simp add: sample_POST sample_response_def)
  have h2: "db_inv sample_db" and h3: "editor_inv sample_editor"
    by (simp_all add: db_inv_def editor_inv_def sample_db_def sample_editor_def slide_inv_def
        sample_slide_def second_slide_def utf16_def)
  have h4: "slides (handleContentChange sample_save_env (utf16 ''hi'') sample_editor) =
        [sample_slide\<lparr>content := utf16 ''hi'', char_count := 2, updated_at := utf16 ''t4''\<rparr>,
         second_slide]"
    by (simp add: slides_handleContentChange sample_editor_def sample_save_env_def
        sample_slide_def second_slide_def utf16_def)
  have h5: "app_inv sample_app"
    using h2 h3 by (simp add: app_inv_def sample_app_def)
  have h6: "well_typed (slide_insert (utf16 ''p1'') (new_slide_request sample_editor))"
    by (rule new_slide_request_well_typed)
  note t = char_count_invariant [where b = text_body and s = "utf16 ''hi''"
      and i = "utf16 ''p1''" and b' = empty_body and i' = "utf16 ''p1''"
      and i'' = "utf16 ''p1''" and b'' = "new_slide_request sample_editor"
      and env = sample_server and db = sample_db
      and row = created_slide and senv = sample_save_env and v = "utf16 ''hi''"
      and st = sample_editor and denv = sample_dup_env and projectId = "utf16 ''p1''"
      and a = sample_app
      and es = "[Click_add, Click_duplicate sample_dup_env, Settle_add 0 sample_add_env]"]
  from t h0 h1 h2 h3 h4 h5 h6 show ?thesis by (auto simp: utf16_def)
qed

text \<open>
  C6 as stated fails on creation: the route does not test the type of the submitted
  content. For the content 12345 the object it inserts has no \<open>char_count\<close> at all, and
  for the content \<open>["ab", "c"]\<close> it has the \<open>char_count\<close> 2, the number of elements.
\<close>

theorem char_count_not_from_content_counterexample:
  "body_content number_body = Some (Json_number 12345)
   \<and> row_content (slide_insert (utf16 ''p1'') number_body) = Json_number 12345
   \<and> row_char_count (slide_insert (utf16 ''p1'') number_body) = None
   \<and> row_content (slide_insert (utf16 ''p1'') array_body) =
        Json_array [Json_string (utf16 ''ab''), Json_string (utf16 ''c'')]
   \<and> row_char_count (slide_insert (utf16 ''p1'') array_body) = Some (Json_number 2)"
  by (simp add: number_body_def array_body_def slide_insert_def or_json_def)

end
